theory Spec2Isabelle
  imports Complex_Main
begin

section \<open>Safe Warner: the session state machine and the alerting policy\<close>

text \<open>
  A shallow embedding of \<^verbatim>\<open>core/health_monitor.py\<close> (class \<^verbatim>\<open>HealthMonitor\<close>),
  \<^verbatim>\<open>utils/notifications.py\<close> (\<^verbatim>\<open>fast_notify\<close>) and of the background-mode
  methods of \<^verbatim>\<open>gui/main_window.py\<close> (class \<^verbatim>\<open>SafeWarnerGUI\<close>).

  Conventions of the embedding:
  \<^item> Wall-clock instants and durations (Python floats read from \<^verbatim>\<open>time.time()\<close>) are
    \<^typ>\<open>real\<close>; rounding of floating-point arithmetic is outside the model.
  \<^item> Every operation takes the instant \<open>now\<close> at which it runs; all readings of the
    clock made inside one call return that instant.
  \<^item> The strings that the source uses as enumerations (gaze bucket, exercise phase,
    alert type: every call site passes one of six literals) are datatypes.
  \<^item> The object \<^verbatim>\<open>self\<close> is the record \<open>monitor\<close>; a method takes it and returns it
    updated. Calls to the outside world (desktop notifier, speech) are appended to the
    field \<open>calls\<close>, which is not an attribute of the Python object but the trace of
    what the object did to its collaborators.
  \<^item> Console output (\<^verbatim>\<open>print\<close>) is not modelled. Characters outside ASCII (the
    pictographs at the start of notification titles, the degree sign) are left out of
    the string literals.
\<close>

subsection \<open>Constants (\<^verbatim>\<open>utils/constants.py\<close>)\<close>

definition EAR_THRESHOLD :: real where "EAR_THRESHOLD = 0.20"
definition BLINK_WINDOW :: real where "BLINK_WINDOW = 10"
definition SCREEN_TIME_BREAK :: real where "SCREEN_TIME_BREAK = 20 * 60"
definition NOTIFICATION_COOLDOWN :: real where "NOTIFICATION_COOLDOWN = 30"
definition AUTO_MODE_INTERVAL :: real where "AUTO_MODE_INTERVAL = 30"

subsection \<open>Data\<close>

datatype gaze = GazeLeft | GazeRight | GazeCenter

datatype phase = PhaseRight | PhaseLeft

datatype alert_kind =
  proximity | posture | blink_rate | screen_time | system_health | eye_exercise

text \<open>Values stored in the \<^verbatim>\<open>system_info\<close> dictionary.\<close>

datatype pyval = VBool bool | VNum real | VStr string

text \<open>An f-string is the list of its literal and formatted pieces.\<close>

datatype piece = Txt string | Fmt pyval

type_synonym msg = "piece list"

text \<open>Calls made to the external collaborators.\<close>

datatype call = FastNotify string msg | Speak string

record alert_record =
  a_timestamp :: real
  a_type :: alert_kind
  a_title :: string
  a_message :: msg

record exercise_record =
  e_timestamp :: real
  e_duration :: real
  e_success :: bool

record monitor =
  mediapipe_available :: bool
  psutil_available :: bool
  auto_mode :: bool
  blink_timestamps :: "real list"
  session_start :: real
  last_break_time :: real
  last_notification :: "alert_kind \<rightharpoonup> real"
  alert_stats :: "alert_kind \<Rightarrow> nat"
  eye_exercise_active :: bool
  eye_exercise_start_time :: real
  time_left :: real
  exercise_done :: bool
  current_phase :: phase
  countdown_active :: bool
  last_detection :: gaze
  phase_start_time :: real
  paused_time_left :: real
  auto_mode_last_check :: real
  sd_alerts :: "alert_record list"
  sd_eye_exercises :: "exercise_record list"
  sd_mode_auto :: bool
  calls :: "call list"

text \<open>
  \<^verbatim>\<open>HealthMonitor.__init__\<close>, run at instant \<open>now\<close>; the two capability flags are
  the outcome of the optional imports.
\<close>

definition init_monitor :: "bool \<Rightarrow> bool \<Rightarrow> bool \<Rightarrow> real \<Rightarrow> monitor" where
  "init_monitor mp_ok ps_ok am now =
     \<lparr> mediapipe_available = mp_ok,
       psutil_available = ps_ok,
       auto_mode = am,
       blink_timestamps = [],
       session_start = now,
       last_break_time = now,
       last_notification = Map.empty,
       alert_stats = (\<lambda>k. 0),
       eye_exercise_active = False,
       eye_exercise_start_time = 0,
       time_left = 15,
       exercise_done = False,
       current_phase = PhaseRight,
       countdown_active = False,
       last_detection = GazeCenter,
       phase_start_time = 0,
       paused_time_left = 15,
       auto_mode_last_check = now,
       sd_alerts = [],
       sd_eye_exercises = [],
       sd_mode_auto = am,
       calls = [] \<rparr>"

definition set_auto_mode :: "monitor \<Rightarrow> bool \<Rightarrow> monitor" where
  "set_auto_mode s enabled = s\<lparr> auto_mode := enabled, sd_mode_auto := enabled \<rparr>"

definition should_check_auto_mode :: "monitor \<Rightarrow> real \<Rightarrow> bool" where
  "should_check_auto_mode s now =
     (if \<not> auto_mode s then False
      else now - auto_mode_last_check s \<ge> AUTO_MODE_INTERVAL)"

subsection \<open>The notifier (\<^verbatim>\<open>utils/notifications.py\<close>)\<close>

text \<open>
  A backend is missing (its import failed), or present and then its call either
  succeeds or raises. \<^verbatim>\<open>fast_notify\<close> catches every exception itself.
\<close>

datatype backend = Missing | Succeeds | Raises

record notifier_env =
  on_windows :: bool
  win_toaster :: backend
  plyer :: backend

definition fast_notify :: "notifier_env \<Rightarrow> string \<Rightarrow> msg \<Rightarrow> bool" where
  "fast_notify env title message =
     (if on_windows env \<and> win_toaster env \<noteq> Missing \<and> win_toaster env = Succeeds then True
      else if plyer env \<noteq> Missing \<and> plyer env = Succeeds then True
      else False)"

subsection \<open>The cooldown gate\<close>

definition should_notify :: "monitor \<Rightarrow> real \<Rightarrow> alert_kind \<Rightarrow> bool" where
  "should_notify s now alert_type =
     (let last_time = (case last_notification s alert_type of None \<Rightarrow> 0 | Some t \<Rightarrow> t)
      in now - last_time \<ge> NOTIFICATION_COOLDOWN)"

definition send_notification ::
    "monitor \<Rightarrow> notifier_env \<Rightarrow> real \<Rightarrow> string \<Rightarrow> msg \<Rightarrow> alert_kind \<Rightarrow> monitor" where
  "send_notification s env now title message alert_type =
     (if \<not> should_notify s now alert_type \<and> alert_type \<noteq> eye_exercise then s
      else
        (let delivered = fast_notify env title message
         in s\<lparr> calls := calls s @ [FastNotify title message],
               last_notification := (last_notification s)(alert_type \<mapsto> now),
               alert_stats := (alert_stats s)(alert_type := alert_stats s alert_type + 1),
               sd_alerts := sd_alerts s @
                 [\<lparr> a_timestamp = now, a_type = alert_type,
                    a_title = title, a_message = message \<rparr>] \<rparr>))"

subsection \<open>The eye exercise\<close>

definition start_eye_exercise :: "monitor \<Rightarrow> notifier_env \<Rightarrow> real \<Rightarrow> monitor" where
  "start_eye_exercise s env now =
     (let s1 = s\<lparr> eye_exercise_active := True,
                  eye_exercise_start_time := now,
                  time_left := 15,
                  exercise_done := False,
                  current_phase := PhaseRight,
                  countdown_active := False,
                  phase_start_time := now,
                  paused_time_left := 15 \<rparr>;
          s2 = s1\<lparr> calls := calls s1 @
                 [Speak ''Eye exercise starting. Please look to the right for fifteen seconds.''] \<rparr>
      in send_notification s2 env now ''Eye Exercise Time!''
           [Txt ''Please look to the RIGHT side for 15 seconds''] eye_exercise)"

text \<open>The branch of \<^verbatim>\<open>update_eye_exercise\<close> for the phase "right".\<close>

definition update_right :: "monitor \<Rightarrow> notifier_env \<Rightarrow> real \<Rightarrow> gaze \<Rightarrow> monitor" where
  "update_right s env current_time detection =
     (if detection = GazeRight then
        (let s1 = (if \<not> countdown_active s
                   then s\<lparr> countdown_active := True,
                           phase_start_time := current_time,
                           time_left := paused_time_left s \<rparr>
                   else s);
             elapsed = current_time - phase_start_time s1;
             s2 = s1\<lparr> time_left := max 0 (paused_time_left s1 - elapsed) \<rparr>
         in if time_left s2 \<le> 0 then
              (let s3 = s2\<lparr> calls := calls s2 @
                           [Speak ''Good. Now look to the left for fifteen seconds.''],
                         current_phase := PhaseLeft,
                         countdown_active := False,
                         paused_time_left := 15,
                         time_left := 15 \<rparr>
               in send_notification s3 env current_time ''Good! Now look LEFT''
                    [Txt ''Please look to the LEFT side for 15 seconds''] eye_exercise)
            else s2)
      else if countdown_active s then
        (let s1 = s\<lparr> countdown_active := False,
                     paused_time_left := time_left s,
                     calls := calls s @ [Speak ''Please keep looking right to continue.''] \<rparr>
         in send_notification s1 env current_time ''Keep Looking Right''
              [Txt ''Please maintain your gaze to the RIGHT side to continue the exercise'']
              eye_exercise)
      else s)"

text \<open>The branch for the phase "left"; completion appends the exercise record.\<close>

definition update_left :: "monitor \<Rightarrow> notifier_env \<Rightarrow> real \<Rightarrow> gaze \<Rightarrow> monitor" where
  "update_left s env current_time detection =
     (if detection = GazeLeft then
        (let s1 = (if \<not> countdown_active s
                   then s\<lparr> countdown_active := True,
                           phase_start_time := current_time,
                           time_left := paused_time_left s \<rparr>
                   else s);
             elapsed = current_time - phase_start_time s1;
             s2 = s1\<lparr> time_left := max 0 (paused_time_left s1 - elapsed) \<rparr>
         in if time_left s2 \<le> 0 then
              (let s3 = s2\<lparr> eye_exercise_active := False, exercise_done := True \<rparr>;
                   total_duration = current_time - eye_exercise_start_time s3;
                   s4 = s3\<lparr> calls := calls s3 @ [Speak ''Exercise complete. Great job.''] \<rparr>;
                   s5 = send_notification s4 env current_time ''Exercise Complete!''
                          [Txt ''Great job! Your eye exercise is complete.''] eye_exercise;
                   s6 = s5\<lparr> sd_eye_exercises := sd_eye_exercises s5 @
                           [\<lparr> e_timestamp = current_time, e_duration = total_duration,
                              e_success = True \<rparr>] \<rparr>
               in if auto_mode s6 then s6\<lparr> auto_mode_last_check := current_time \<rparr> else s6)
            else s2)
      else if countdown_active s then
        (let s1 = s\<lparr> countdown_active := False,
                     paused_time_left := time_left s,
                     calls := calls s @ [Speak ''Please keep looking left to continue.''] \<rparr>
         in send_notification s1 env current_time ''Keep Looking Left''
              [Txt ''Please maintain your gaze to the LEFT side to continue the exercise'']
              eye_exercise)
      else s)"

definition update_eye_exercise :: "monitor \<Rightarrow> notifier_env \<Rightarrow> real \<Rightarrow> gaze \<Rightarrow> monitor" where
  "update_eye_exercise s env current_time detection =
     (if \<not> eye_exercise_active s \<or> exercise_done s then s
      else case current_phase s of
             PhaseRight \<Rightarrow> update_right s env current_time detection
           | PhaseLeft \<Rightarrow> update_left s env current_time detection)"

text \<open>A run of ticks: one call of \<^verbatim>\<open>update_eye_exercise\<close> per frame, in order.\<close>

fun run_ticks :: "monitor \<Rightarrow> notifier_env \<Rightarrow> (real \<times> gaze) list \<Rightarrow> monitor" where
  "run_ticks s env [] = s"
| "run_ticks s env ((t, g) # ticks) = run_ticks (update_eye_exercise s env t g) env ticks"

subsection \<open>What one frame delivers\<close>

text \<open>
  The vision library and the metric extractors are floating-point geometry; the model
  takes their outcome for one frame as input. \<open>FaceRaises\<close>: \<^verbatim>\<open>face_mesh.process\<close>
  raised; \<open>NoFace\<close>: no face landmarks; \<open>Face g p e\<close>: gaze bucket \<open>g\<close>, proximity verdict
  \<open>p\<close>, and the eye-aspect-ratio \<open>e\<close>, or \<open>None\<close> when \<^verbatim>\<open>eye_aspect_ratio\<close> raised
  (\<^verbatim>\<open>detect_gaze_direction\<close>, \<^verbatim>\<open>check_proximity\<close> and \<^verbatim>\<open>check_blink_rate\<close> catch their
  own exceptions). \<open>Pose None\<close>: \<^verbatim>\<open>analyze_posture\<close> returned \<^verbatim>\<open>None\<close>.
\<close>

datatype face_input = FaceRaises | NoFace | Face gaze bool "real option"

record posture_data =
  is_tilted :: bool
  is_slouching :: bool

datatype pose_input = PoseRaises | NoPose | Pose "posture_data option"

text \<open>The sensor library: each call raises or returns.\<close>

datatype 'a outcome = Raised string | Returned 'a

record battery =
  percent :: real
  power_plugged :: bool
  secsleft :: real

record psutil_env =
  sensors_battery :: "battery option outcome"
  sensors_temperatures :: "(string \<times> real list) list outcome"

record frame_input =
  f_now :: real
  f_face :: face_input
  f_pose :: pose_input
  f_psutil :: psutil_env
  f_notifier :: notifier_env

text \<open>The dictionary \<^verbatim>\<open>results\<close>; an absent key is \<open>None\<close> (or \<open>False\<close> for the two
  error keys, whose text is the exception's message).\<close>

record results =
  r_error :: "string option"
  r_gaze_direction :: "gaze option"
  r_proximity_alert :: "bool option"
  r_ear :: "real option"
  r_low_blink_rate :: "bool option"
  r_face_error :: bool
  r_posture :: "posture_data option option"
  r_pose_error :: bool
  r_screen_time_alert :: "bool option"
  r_system_info :: "(string \<times> pyval) list option"

definition empty_results :: results where
  "empty_results =
     \<lparr> r_error = None, r_gaze_direction = None, r_proximity_alert = None, r_ear = None,
       r_low_blink_rate = None, r_face_error = False, r_posture = None,
       r_pose_error = False, r_screen_time_alert = None, r_system_info = None \<rparr>"

datatype error = TypeError

subsection \<open>System health\<close>

text \<open>A Python dictionary in insertion order: assigning to a present key keeps its place.\<close>

fun dict_set :: "(string \<times> 'v) list \<Rightarrow> string \<Rightarrow> 'v \<Rightarrow> (string \<times> 'v) list" where
  "dict_set [] k v = [(k, v)]"
| "dict_set ((k', v') # d) k v =
     (if k' = k then (k', v) # d else (k', v') # dict_set d k v)"

fun is_prefix :: "string \<Rightarrow> string \<Rightarrow> bool" where
  "is_prefix [] ys = True"
| "is_prefix (x # xs) [] = False"
| "is_prefix (x # xs) (y # ys) = (x = y \<and> is_prefix xs ys)"

text \<open>\<^verbatim>\<open>sub in key\<close> on strings: \<open>sub\<close> occurs in \<open>key\<close> as a contiguous substring.\<close>

fun py_in :: "string \<Rightarrow> string \<Rightarrow> bool" where
  "py_in sub [] = (sub = [])"
| "py_in sub (c # cs) = (is_prefix sub (c # cs) \<or> py_in sub cs)"

fun add_temps ::
    "(string \<times> pyval) list \<Rightarrow> (string \<times> real list) list \<Rightarrow> (string \<times> pyval) list" where
  "add_temps system_info [] = system_info"
| "add_temps system_info ((name, entries) # temps) =
     add_temps (case entries of [] \<Rightarrow> system_info
                | e # es \<Rightarrow> dict_set system_info (''temp_'' @ name) (VNum e)) temps"

definition check_system_health :: "monitor \<Rightarrow> psutil_env \<Rightarrow> (string \<times> pyval) list" where
  "check_system_health s ps =
     (let system_info = [(''available'', VBool False)]
      in if \<not> psutil_available s
         then dict_set system_info ''message'' (VStr ''psutil not available'')
         else
           (case sensors_battery ps of
              Raised e \<Rightarrow> dict_set system_info ''error'' (VStr e)
            | Returned bat \<Rightarrow>
                (let info1 =
                       (case bat of
                          None \<Rightarrow> system_info
                        | Some b \<Rightarrow>
                            dict_set
                              (dict_set
                                 (dict_set system_info ''battery_percent'' (VNum (percent b)))
                                 ''power_plugged'' (VBool (power_plugged b)))
                              ''battery_seconds_left'' (VNum (secsleft b)))
                 in case sensors_temperatures ps of
                      Raised e \<Rightarrow> dict_set info1 ''error'' (VStr e)
                    | Returned temps \<Rightarrow>
                        (let info2 =
                               (if temps \<noteq> [] then add_temps info1 temps
                                else dict_set info1 ''temperature'' (VStr ''unavailable''))
                         in dict_set info2 ''available'' (VBool True)))))"

text \<open>Truth value of a Python object, and \<^verbatim>\<open>temp > 70\<close>: a string against a number
  raises \<^verbatim>\<open>TypeError\<close>; a Boolean is the integer 0 or 1.\<close>

fun truthy :: "pyval \<Rightarrow> bool" where
  "truthy (VBool b) = b"
| "truthy (VNum x) = (x \<noteq> 0)"
| "truthy (VStr t) = (t \<noteq> [])"

fun py_gt :: "pyval \<Rightarrow> real \<Rightarrow> error + bool" where
  "py_gt (VBool b) y = Inr ((if b then 1 else 0) > y)"
| "py_gt (VNum x) y = Inr (x > y)"
| "py_gt (VStr t) y = Inl TypeError"

text \<open>The loop over \<^verbatim>\<open>system_info.items()\<close>. An exception leaves the loop with the
  monitor as it then is.\<close>

fun temperature_loop ::
    "monitor \<Rightarrow> notifier_env \<Rightarrow> real \<Rightarrow> (string \<times> pyval) list \<Rightarrow> error option \<times> monitor" where
  "temperature_loop s env now [] = (None, s)"
| "temperature_loop s env now ((key, temp) # items) =
     (if py_in ''temp'' key then
        (case py_gt temp 70 of
           Inl e \<Rightarrow> (Some e, s)
         | Inr hot \<Rightarrow>
             temperature_loop
               (if hot \<and> should_notify s now system_health
                then send_notification s env now ''System Running Hot''
                       [Txt ''High temperature detected ('', Fmt temp,
                        Txt ''C). Consider taking a break.''] system_health
                else s) env now items)
      else temperature_loop s env now items)"

text \<open>\<^verbatim>\<open>int(x)\<close> truncates towards zero.\<close>

definition py_int :: "real \<Rightarrow> int" where
  "py_int x = (if x \<ge> 0 then \<lfloor>x\<rfloor> else \<lceil>x\<rceil>)"

definition system_health_step ::
    "results \<times> monitor \<Rightarrow> frame_input \<Rightarrow> (error + results) \<times> monitor" where
  "system_health_step rs f =
     (let r = fst rs; s = snd rs; now = f_now f
      in if py_int now mod 10 = 0 \<and> \<not> eye_exercise_active s then
           (let system_info = check_system_health s (f_psutil f);
                r1 = r\<lparr> r_system_info := Some system_info \<rparr>
            in if (case map_of system_info ''available'' of None \<Rightarrow> False | Some v \<Rightarrow> truthy v)
               then (case temperature_loop s (f_notifier f) now system_info of
                       (Some e, s') \<Rightarrow> (Inl e, s')
                     | (None, s') \<Rightarrow> (Inr r1, s'))
               else (Inr r1, s))
         else (Inr r, s))"

subsection \<open>The checks of \<^verbatim>\<open>process_frame\<close>\<close>

text \<open>\<^verbatim>\<open>deque(maxlen=100).append\<close>: a full deque drops its oldest element.\<close>

definition deque_append :: "real list \<Rightarrow> real \<Rightarrow> real list" where
  "deque_append xs x = (if length xs \<ge> 100 then tl xs @ [x] else xs @ [x])"

definition check_blink_rate :: "monitor \<Rightarrow> real \<Rightarrow> bool" where
  "check_blink_rate s current_time =
     (let window_start = current_time - BLINK_WINDOW;
          recent_blinks = length (filter (\<lambda>t. t \<ge> window_start) (blink_timestamps s));
          expected_min_blinks = (BLINK_WINDOW / 60) * 8
      in real recent_blinks < expected_min_blinks)"

definition check_screen_time :: "monitor \<Rightarrow> real \<Rightarrow> bool" where
  "check_screen_time s current_time =
     (current_time - last_break_time s > SCREEN_TIME_BREAK)"

text \<open>Lines 526 to 529: the periodic check stamps the timer.\<close>

definition auto_check_step :: "monitor \<Rightarrow> real \<Rightarrow> monitor" where
  "auto_check_step s now =
     (if auto_mode s \<and> should_check_auto_mode s now
      then s\<lparr> auto_mode_last_check := now \<rparr> else s)"

text \<open>Lines 571 to 577: the trigger at the end of the face block.\<close>

definition face_auto_trigger ::
    "monitor \<Rightarrow> notifier_env \<Rightarrow> real \<Rightarrow> bool \<Rightarrow> bool \<Rightarrow> monitor" where
  "face_auto_trigger s env now prox low =
     (if auto_mode s \<and> \<not> eye_exercise_active s \<and> should_check_auto_mode s now then
        (if prox \<or> low \<or> check_screen_time s now
         then (start_eye_exercise s env now)\<lparr> last_break_time := now \<rparr>
         else s)
      else s)"

text \<open>Lines 531 to 581: the face block. An exception raised inside it is caught at its
  end; what was done before stays done.\<close>

definition face_step :: "results \<times> monitor \<Rightarrow> frame_input \<Rightarrow> results \<times> monitor" where
  "face_step rs f =
     (let r = fst rs; s = snd rs; now = f_now f; env = f_notifier f
      in case f_face f of
           FaceRaises \<Rightarrow> (r\<lparr> r_face_error := True \<rparr>, s)
         | NoFace \<Rightarrow> (r, s)
         | Face gaze_direction prox ear_opt \<Rightarrow>
             (let r1 = r\<lparr> r_gaze_direction := Some gaze_direction \<rparr>;
                  s1 = s\<lparr> last_detection := gaze_direction \<rparr>;
                  s2 = (if eye_exercise_active s1
                        then update_eye_exercise s1 env now gaze_direction else s1);
                  r2 = r1\<lparr> r_proximity_alert := Some prox \<rparr>;
                  s3 = (if prox \<and> should_notify s2 now proximity \<and> \<not> eye_exercise_active s2
                        then send_notification s2 env now ''Move Back Slightly''
                               [Txt (''You'' @ [CHR 0x27] @
                                 ''re sitting too close to the screen. Maintain 20-30cm distance.'')]
                               proximity
                        else s2)
              in case ear_opt of
                   None \<Rightarrow> (r2\<lparr> r_face_error := True \<rparr>, s3)
                 | Some ear \<Rightarrow>
                     (let r3 = r2\<lparr> r_ear := Some ear \<rparr>;
                          s4 = (if ear < EAR_THRESHOLD
                                then s3\<lparr> blink_timestamps :=
                                          deque_append (blink_timestamps s3) now \<rparr>
                                else s3);
                          low = check_blink_rate s4 now;
                          r4 = r3\<lparr> r_low_blink_rate := Some low \<rparr>;
                          s5 = (if low \<and> should_notify s4 now blink_rate
                                   \<and> \<not> eye_exercise_active s4
                                then send_notification s4 env now ''Rest Your Eyes''
                                       [Txt ''Your blink rate is low. Remember to blink regularly.'']
                                       blink_rate
                                else s4)
                      in (r4, face_auto_trigger s5 env now prox low))))"

text \<open>Lines 590 to 610: the posture alerts and the posture trigger.\<close>

definition posture_step ::
    "monitor \<Rightarrow> notifier_env \<Rightarrow> real \<Rightarrow> posture_data \<Rightarrow> monitor" where
  "posture_step s env now pd =
     (if \<not> eye_exercise_active s then
        (let s1 = (if is_tilted pd \<and> should_notify s now posture
                   then send_notification s env now ''Adjust Your Posture''
                          [Txt ''Your head is tilted. Keep your head straight and aligned.'']
                          posture
                   else s);
             s2 = (if is_slouching pd \<and> should_notify s1 now posture
                   then send_notification s1 env now ''Sit Up Straight''
                          [Txt (''You'' @ [CHR 0x27] @
                            ''re slouching. Straighten your back and relax your shoulders.'')]
                          posture
                   else s1)
         in if auto_mode s2 \<and> \<not> eye_exercise_active s2 \<and> should_check_auto_mode s2 now then
              (if is_tilted pd \<or> is_slouching pd
               then (start_eye_exercise s2 env now)\<lparr> last_break_time := now \<rparr>
               else s2)
            else s2)
      else s)"

definition pose_step :: "results \<times> monitor \<Rightarrow> frame_input \<Rightarrow> results \<times> monitor" where
  "pose_step rs f =
     (let r = fst rs; s = snd rs
      in case f_pose f of
           PoseRaises \<Rightarrow> (r\<lparr> r_pose_error := True \<rparr>, s)
         | NoPose \<Rightarrow> (r, s)
         | Pose posture_opt \<Rightarrow>
             (r\<lparr> r_posture := Some posture_opt \<rparr>,
              case posture_opt of
                None \<Rightarrow> s
              | Some pd \<Rightarrow> posture_step s (f_notifier f) (f_now f) pd))"

text \<open>Lines 616 to 624: the screen-time alert, a notification in manual mode only.\<close>

definition screen_time_step :: "results \<times> monitor \<Rightarrow> frame_input \<Rightarrow> results \<times> monitor" where
  "screen_time_step rs f =
     (let r = fst rs; s = snd rs; now = f_now f;
          alert = check_screen_time s now;
          r1 = r\<lparr> r_screen_time_alert := Some alert \<rparr>
      in if alert \<and> should_notify s now screen_time \<and> \<not> eye_exercise_active s then
           (if \<not> auto_mode s
            then (r1, send_notification s (f_notifier f) now ''Time for a Break!''
                        [Txt (''You'' @ [CHR 0x27] @
                          ''ve been using the screen for 20 minutes. Consider taking a break.'')]
                        screen_time)
            else (r1, s))
         else (r1, s))"

definition process_frame :: "monitor \<Rightarrow> frame_input \<Rightarrow> (error + results) \<times> monitor" where
  "process_frame s f =
     (if \<not> mediapipe_available s
      then (Inr (empty_results\<lparr> r_error := Some ''MediaPipe not available'' \<rparr>), s)
      else
        (let s1 = auto_check_step s (f_now f);
             rs2 = face_step (empty_results, s1) f;
             rs3 = pose_step rs2 f;
             rs4 = screen_time_step rs3 f
         in system_health_step rs4 f))"

text \<open>The capture loop of \<^verbatim>\<open>VideoThread.run\<close>: one \<^verbatim>\<open>process_frame\<close> per frame; an
  exception that leaves \<^verbatim>\<open>process_frame\<close> ends the loop.\<close>

fun run_frames :: "monitor \<Rightarrow> frame_input list \<Rightarrow> error option \<times> monitor" where
  "run_frames s [] = (None, s)"
| "run_frames s (f # fs) =
     (case process_frame s f of
        (Inl e, s') \<Rightarrow> (Some e, s')
      | (Inr r, s') \<Rightarrow> run_frames s' fs)"

subsection \<open>Background mode (\<^verbatim>\<open>gui/main_window.py\<close>)\<close>

text \<open>The attributes of \<^verbatim>\<open>SafeWarnerGUI\<close> that decide the switch to the background;
  \<open>window_shown\<close> stands for \<^verbatim>\<open>show()\<close> and \<^verbatim>\<open>hide()\<close>.\<close>

record gui =
  g_monitor :: monitor
  is_camera_active :: bool
  auto_mode_active :: bool
  background_mode :: bool
  window_shown :: bool

definition init_gui :: "bool \<Rightarrow> bool \<Rightarrow> real \<Rightarrow> gui" where
  "init_gui mp_ok ps_ok now =
     \<lparr> g_monitor = init_monitor mp_ok ps_ok False now,
       is_camera_active = False,
       auto_mode_active = False,
       background_mode = False,
       window_shown = False \<rparr>"

definition start_camera :: "gui \<Rightarrow> gui" where
  "start_camera g =
     (if \<not> mediapipe_available (g_monitor g) then g
      else g\<lparr> is_camera_active := True \<rparr>)"

definition stop_camera :: "gui \<Rightarrow> gui" where
  "stop_camera g = g\<lparr> is_camera_active := False \<rparr>"

definition start_camera_auto_mode :: "gui \<Rightarrow> real \<Rightarrow> gui" where
  "start_camera_auto_mode g now =
     start_camera
       (g\<lparr> auto_mode_active := True,
           g_monitor := (g_monitor g)\<lparr> auto_mode_last_check := now \<rparr> \<rparr>)"

definition check_user_distance :: "gui \<Rightarrow> real \<Rightarrow> bool" where
  "check_user_distance g now =
     (let session_duration = now - session_start (g_monitor g)
      in session_duration > 3)"

definition has_active_alerts :: "gui \<Rightarrow> bool" where
  "has_active_alerts g = False"

definition switch_to_background_mode :: "gui \<Rightarrow> gui" where
  "switch_to_background_mode g =
     (if background_mode g then g
      else (stop_camera (g\<lparr> background_mode := True \<rparr>))\<lparr> window_shown := False \<rparr>)"

definition check_background_operation :: "gui \<Rightarrow> real \<Rightarrow> gui" where
  "check_background_operation g now =
     (if \<not> auto_mode_active g \<or> \<not> is_camera_active g then g
      else if auto_mode (g_monitor g) \<and> \<not> eye_exercise_active (g_monitor g) then
        (let distance_ok = check_user_distance g now
         in if distance_ok \<and> \<not> has_active_alerts g
            then switch_to_background_mode g else g)
      else g)"

definition try_background_after_start :: "gui \<Rightarrow> real \<Rightarrow> gui" where
  "try_background_after_start g now =
     (if \<not> auto_mode_active g \<or> \<not> is_camera_active g then g
      else if check_user_distance g now \<and> \<not> has_active_alerts g
           then switch_to_background_mode g else g)"

text \<open>The handler of the button "Start Eye Exercise" (\<^verbatim>\<open>SafeWarnerGUI.start_eye_exercise\<close>).\<close>

definition gui_start_eye_exercise :: "gui \<Rightarrow> notifier_env \<Rightarrow> real \<Rightarrow> gui" where
  "gui_start_eye_exercise g env now =
     g\<lparr> g_monitor := start_eye_exercise (g_monitor g) env now \<rparr>"

text \<open>\<^verbatim>\<open>main()\<close> with the flag \<^verbatim>\<open>--auto-mode\<close>: the window is created at \<open>t0\<close>, the
  monitor is put in auto mode, the window is hidden (\<^verbatim>\<open>--minimal\<close>) or shown minimized,
  and the camera is started at \<open>t1\<close>.\<close>

definition main_auto_mode :: "bool \<Rightarrow> bool \<Rightarrow> bool \<Rightarrow> real \<Rightarrow> real \<Rightarrow> gui" where
  "main_auto_mode mp_ok ps_ok minimal_mode t0 t1 =
     (let g = init_gui mp_ok ps_ok t0;
          g1 = g\<lparr> g_monitor := set_auto_mode (g_monitor g) True \<rparr>;
          g2 = g1\<lparr> window_shown := \<not> minimal_mode \<rparr>
      in start_camera_auto_mode g2 t1)"

subsection \<open>Vocabulary of the properties\<close>

text \<open>The gaze bucket that a phase waits for: the source compares the detection with
  the literal that also names the phase.\<close>

fun phase_gaze :: "phase \<Rightarrow> gaze" where
  "phase_gaze PhaseRight = GazeRight"
| "phase_gaze PhaseLeft = GazeLeft"

text \<open>The re-prompts "Keep Looking Right" and "Keep Looking Left".\<close>

fun is_keep_looking :: "call \<Rightarrow> bool" where
  "is_keep_looking (FastNotify title m) =
     (title = ''Keep Looking Right'' \<or> title = ''Keep Looking Left'')"
| "is_keep_looking (Speak txt) = False"

text \<open>Only \<^verbatim>\<open>start_eye_exercise\<close> speaks the opening sentence, so the number of times
  it occurs in the trace is the number of times the exercise was started.\<close>

definition start_count :: "call list \<Rightarrow> nat" where
  "start_count cs =
     length (filter (\<lambda>c. c = Speak ''Eye exercise starting. Please look to the right for fifteen seconds.'') cs)"

definition right_ticks :: "real list \<Rightarrow> (real \<times> gaze) list" where
  "right_ticks ts = map (\<lambda>t. (t, GazeRight)) ts"

definition left_ticks :: "real list \<Rightarrow> (real \<times> gaze) list" where
  "left_ticks ts = map (\<lambda>t. (t, GazeLeft)) ts"

definition center_ticks :: "real list \<Rightarrow> (real \<times> gaze) list" where
  "center_ticks ts = map (\<lambda>t. (t, GazeCenter)) ts"

definition in_right_phase :: "monitor \<Rightarrow> bool" where
  "in_right_phase s \<longleftrightarrow>
     eye_exercise_active s \<and> \<not> exercise_done s \<and> current_phase s = PhaseRight"

text \<open>Environments and states used as concrete inputs.\<close>

definition env_none :: notifier_env where
  "env_none = \<lparr> on_windows = False, win_toaster = Missing, plyer = Missing \<rparr>"

definition env_plyer :: notifier_env where
  "env_plyer = \<lparr> on_windows = False, win_toaster = Missing, plyer = Succeeds \<rparr>"

definition psutil_no_sensors :: psutil_env where
  "psutil_no_sensors = \<lparr> sensors_battery = Returned None, sensors_temperatures = Returned [] \<rparr>"

definition ex_counting :: monitor where
  "ex_counting =
     run_ticks (start_eye_exercise (init_monitor True True False 0) env_none 0) env_none
       (right_ticks [1, 4])"

definition ex_left :: monitor where
  "ex_left =
     run_ticks (start_eye_exercise (init_monitor True True False 0) env_none 0) env_none
       (right_ticks [1, 16])"

definition waiting_left :: "monitor \<Rightarrow> bool" where
  "waiting_left s \<longleftrightarrow>
     eye_exercise_active s \<and> \<not> exercise_done s \<and> current_phase s = PhaseLeft
     \<and> \<not> countdown_active s \<and> time_left s = 15 \<and> paused_time_left s = 15"

definition counting_left :: "monitor \<Rightarrow> bool" where
  "counting_left s \<longleftrightarrow>
     eye_exercise_active s \<and> \<not> exercise_done s \<and> current_phase s = PhaseLeft
     \<and> countdown_active s"

text \<open>Between \<open>s\<close> and \<open>s'\<close> the exercise was not started: the mode, the number of
  opening prompts, the start instant and the instant of the last break are the same, and
  an exercise that was not active is not active.\<close>

definition no_start_between :: "monitor \<Rightarrow> monitor \<Rightarrow> bool" where
  "no_start_between s s' \<longleftrightarrow>
     auto_mode s' = auto_mode s
     \<and> start_count (calls s') = start_count (calls s)
     \<and> eye_exercise_start_time s' = eye_exercise_start_time s
     \<and> last_break_time s' = last_break_time s
     \<and> (\<not> eye_exercise_active s \<longrightarrow> \<not> eye_exercise_active s')"

text \<open>What holds of the monitor \<open>s'\<close> at every point of \<^verbatim>\<open>process_frame\<close> after its
  first step, when the frame began in \<open>s\<close> at \<open>now\<close>.\<close>

definition quiet_at :: "real \<Rightarrow> monitor \<Rightarrow> monitor \<Rightarrow> bool" where
  "quiet_at now s s' \<longleftrightarrow>
     no_start_between s s'
     \<and> \<not> should_check_auto_mode s' now
     \<and> psutil_available s' = psutil_available s
     \<and> (auto_mode_last_check s' = auto_mode_last_check (auto_check_step s now)
          \<or> auto_mode_last_check s' = now)"

definition frame_all_alerts :: frame_input where
  "frame_all_alerts =
     \<lparr> f_now = 1305,
       f_face = Face GazeCenter True (Some 0.3),
       f_pose = Pose (Some \<lparr> is_tilted = True, is_slouching = True \<rparr>),
       f_psutil = psutil_no_sensors,
       f_notifier = env_plyer \<rparr>"

definition frame_too_close :: frame_input where
  "frame_too_close =
     \<lparr> f_now = 35,
       f_face = Face GazeCenter True (Some 0.3),
       f_pose = NoPose,
       f_psutil = psutil_no_sensors,
       f_notifier = env_plyer \<rparr>"

definition frame_no_sensors :: frame_input where
  "frame_no_sensors =
     \<lparr> f_now = 40,
       f_face = NoFace,
       f_pose = NoPose,
       f_psutil = psutil_no_sensors,
       f_notifier = env_plyer \<rparr>"

definition gui_exercise_at_startup :: gui where
  "gui_exercise_at_startup =
     gui_start_eye_exercise (main_auto_mode True True False 0 0.2) env_plyer 1"

section \<open>Properties\<close>

subsection \<open>Auxiliary facts\<close>

lemma send_notification_eye:
  "send_notification s env now title message eye_exercise =
     s\<lparr> calls := calls s @ [FastNotify title message],
        last_notification := (last_notification s)(eye_exercise \<mapsto> now),
        alert_stats := (alert_stats s)(eye_exercise := alert_stats s eye_exercise + 1),
        sd_alerts := sd_alerts s @
          [\<lparr> a_timestamp = now, a_type = eye_exercise,
             a_title = title, a_message = message \<rparr>] \<rparr>"
  by (simp add: send_notification_def)

lemma run_ticks_append:
  "run_ticks s env (xs @ ys) = run_ticks (run_ticks s env xs) env ys"
  by (induction xs arbitrary: s) auto

lemma ex_counting_fields:
  "eye_exercise_active ex_counting" "\<not> exercise_done ex_counting"
  "countdown_active ex_counting" "current_phase ex_counting = PhaseRight"
  "time_left ex_counting = 12" "paused_time_left ex_counting = 15"
  "phase_start_time ex_counting = 1"
  by (simp_all add: ex_counting_def right_ticks_def init_monitor_def start_eye_exercise_def
        send_notification_eye update_eye_exercise_def update_right_def Let_def)

lemma ex_left_fields:
  "eye_exercise_active ex_left" "\<not> exercise_done ex_left"
  "\<not> countdown_active ex_left" "current_phase ex_left = PhaseLeft"
  "time_left ex_left = 15" "paused_time_left ex_left = 15"
  "eye_exercise_start_time ex_left = 0"
  by (simp_all add: ex_left_def right_ticks_def init_monitor_def start_eye_exercise_def
        send_notification_eye update_eye_exercise_def update_right_def Let_def)

lemma update_paused_wrong_gaze:
  "\<not> countdown_active s \<Longrightarrow> g \<noteq> phase_gaze (current_phase s) \<Longrightarrow>
     update_eye_exercise s env t g = s"
  by (cases "current_phase s")
     (auto simp: update_eye_exercise_def update_right_def update_left_def)

lemma run_paused_wrong_gaze:
  "\<not> countdown_active s \<Longrightarrow> \<forall>(t, g) \<in> set ws. g \<noteq> phase_gaze (current_phase s) \<Longrightarrow>
     run_ticks s env ws = s"
  by (induction ws) (auto simp: update_paused_wrong_gaze)

lemma run_inactive:
  "\<not> eye_exercise_active s \<or> exercise_done s \<Longrightarrow> run_ticks s env ticks = s"
  by (induction ticks) (auto simp: update_eye_exercise_def)

lemma update_right_keep_looking_count:
  "length (filter is_keep_looking (calls (update_right s env t g))) =
     length (filter is_keep_looking (calls s)) +
       (if countdown_active s \<and> g \<noteq> GazeRight then 1 else 0)"
  by (cases "g = GazeRight"; cases "countdown_active s")
     (simp_all add: update_right_def send_notification_eye Let_def)

lemma update_left_keep_looking_count:
  "length (filter is_keep_looking (calls (update_left s env t g))) =
     length (filter is_keep_looking (calls s)) +
       (if countdown_active s \<and> g \<noteq> GazeLeft then 1 else 0)"
  by (cases "g = GazeLeft"; cases "countdown_active s")
     (simp_all add: update_left_def send_notification_eye Let_def)

lemma update_keep_looking_count:
  "length (filter is_keep_looking (calls (update_eye_exercise s env t g))) =
     length (filter is_keep_looking (calls s)) +
       (if eye_exercise_active s \<and> \<not> exercise_done s \<and> countdown_active s
           \<and> g \<noteq> phase_gaze (current_phase s) then 1 else 0)"
  by (cases "current_phase s")
     (simp_all add: update_eye_exercise_def update_right_keep_looking_count
        update_left_keep_looking_count)

lemma update_pause_effect:
  "eye_exercise_active s \<Longrightarrow> \<not> exercise_done s \<Longrightarrow> countdown_active s \<Longrightarrow>
   g \<noteq> phase_gaze (current_phase s) \<Longrightarrow>
     \<not> countdown_active (update_eye_exercise s env t g) \<and>
     paused_time_left (update_eye_exercise s env t g) = time_left s \<and>
     time_left (update_eye_exercise s env t g) = time_left s \<and>
     current_phase (update_eye_exercise s env t g) = current_phase s \<and>
     eye_exercise_active (update_eye_exercise s env t g) \<and>
     \<not> exercise_done (update_eye_exercise s env t g)"
  by (cases "current_phase s")
     (simp_all add: update_eye_exercise_def update_right_def update_left_def
        send_notification_eye)

lemma update_resume_effect:
  "eye_exercise_active s \<Longrightarrow> \<not> exercise_done s \<Longrightarrow> \<not> countdown_active s \<Longrightarrow>
   0 < paused_time_left s \<Longrightarrow>
     update_eye_exercise s env t (phase_gaze (current_phase s)) =
       s\<lparr> countdown_active := True, phase_start_time := t, time_left := paused_time_left s \<rparr>"
  by (cases "current_phase s")
     (auto simp: update_eye_exercise_def update_right_def update_left_def Let_def)

lemma start_fields:
  "eye_exercise_active (start_eye_exercise s env now)"
  "\<not> exercise_done (start_eye_exercise s env now)"
  "current_phase (start_eye_exercise s env now) = PhaseRight"
  "\<not> countdown_active (start_eye_exercise s env now)"
  "paused_time_left (start_eye_exercise s env now) = 15"
  "time_left (start_eye_exercise s env now) = 15"
  "eye_exercise_start_time (start_eye_exercise s env now) = now"
  "sd_eye_exercises (start_eye_exercise s env now) = sd_eye_exercises s"
  "auto_mode (start_eye_exercise s env now) = auto_mode s"
  by (simp_all add: start_eye_exercise_def send_notification_eye Let_def)

lemma update_right_counting:
  "in_right_phase s \<Longrightarrow> countdown_active s \<Longrightarrow>
   t - phase_start_time s < paused_time_left s \<Longrightarrow>
     update_eye_exercise s env t GazeRight =
       s\<lparr> time_left := paused_time_left s - (t - phase_start_time s) \<rparr>"
  by (simp add: in_right_phase_def update_eye_exercise_def update_right_def Let_def max_def)

lemma run_right_counting:
  "in_right_phase s \<Longrightarrow> countdown_active s \<Longrightarrow>
   \<forall>a \<in> set as. a - phase_start_time s < paused_time_left s \<Longrightarrow>
     run_ticks s env (right_ticks as) =
       (if as = [] then s
        else s\<lparr> time_left := paused_time_left s - (last as - phase_start_time s) \<rparr>)"
proof (induction as arbitrary: s)
  case Nil
  then show ?case by (simp add: right_ticks_def)
next
  case (Cons a as)
  let ?s' = "s\<lparr> time_left := paused_time_left s - (a - phase_start_time s) \<rparr>"
  have u: "update_eye_exercise s env a GazeRight = ?s'"
    using Cons.prems by (simp add: update_right_counting)
  have "run_ticks ?s' env (right_ticks as) =
       (if as = [] then ?s'
        else ?s'\<lparr> time_left := paused_time_left ?s' - (last as - phase_start_time ?s') \<rparr>)"
    by (rule Cons.IH) (use Cons.prems in \<open>simp_all add: in_right_phase_def\<close>)
  then show ?case
    using u by (simp add: right_ticks_def)
qed

lemma current_phase_update_left:
  "current_phase (update_left s env t g) = current_phase s"
  by (cases "g = GazeLeft"; cases "countdown_active s")
     (simp_all add: update_left_def send_notification_eye Let_def)

lemma not_right_phase_update:
  "\<not> in_right_phase s \<Longrightarrow> \<not> in_right_phase (update_eye_exercise s env t g)"
  by (cases "current_phase s")
     (auto simp: in_right_phase_def update_eye_exercise_def current_phase_update_left)

lemma run_not_right_phase:
  "\<not> in_right_phase s \<Longrightarrow> \<not> in_right_phase (run_ticks s env ticks)"
proof (induction ticks arbitrary: s)
  case Nil
  then show ?case by simp
next
  case (Cons p ticks)
  obtain t g where p: "p = (t, g)" by (cases p)
  from Cons.prems have "\<not> in_right_phase (update_eye_exercise s env t g)"
    by (rule not_right_phase_update)
  then show ?case using Cons.IH p by simp
qed

lemma in_right_phase_prefix:
  assumes "in_right_phase (run_ticks s env ticks)"
  shows "in_right_phase (run_ticks s env (take n ticks))"
proof (rule ccontr)
  assume "\<not> in_right_phase (run_ticks s env (take n ticks))"
  then have "\<not> in_right_phase (run_ticks (run_ticks s env (take n ticks)) env (drop n ticks))"
    by (rule run_not_right_phase)
  then show False
    using assms by (simp add: run_ticks_append [symmetric])
qed

lemma time_left_update_right:
  "0 < time_left s \<Longrightarrow> 0 < time_left (update_right s env t g)"
  by (cases "g = GazeRight"; cases "countdown_active s")
     (simp_all add: update_right_def send_notification_eye Let_def)

lemma time_left_update_left:
  "0 < time_left s \<Longrightarrow> eye_exercise_active (update_left s env t g) \<Longrightarrow>
     0 < time_left (update_left s env t g)"
  by (cases "g = GazeLeft"; cases "countdown_active s")
     (auto simp: update_left_def send_notification_eye Let_def split: if_splits)

lemma time_left_positive:
  "eye_exercise_active s \<longrightarrow> 0 < time_left s \<Longrightarrow>
     eye_exercise_active (update_eye_exercise s env t g) \<longrightarrow>
       0 < time_left (update_eye_exercise s env t g)"
  by (cases "current_phase s")
     (auto simp: update_eye_exercise_def time_left_update_right time_left_update_left)

lemma time_left_positive_run:
  "eye_exercise_active s \<longrightarrow> 0 < time_left s \<Longrightarrow>
     eye_exercise_active (run_ticks s env ticks) \<longrightarrow> 0 < time_left (run_ticks s env ticks)"
proof (induction ticks arbitrary: s)
  case Nil
  then show ?case by simp
next
  case (Cons p ticks)
  obtain t g where p: "p = (t, g)" by (cases p)
  show ?case
    using Cons.IH [OF time_left_positive [OF Cons.prems, of env t g]] p by simp
qed

lemma sorted_le_last:
  "sorted (xs :: real list) \<Longrightarrow> x \<in> set xs \<Longrightarrow> x \<le> last xs"
  by (induction xs) (auto split: if_splits)

lemma sorted_hd_le_last:
  "sorted (xs :: real list) \<Longrightarrow> xs \<noteq> [] \<Longrightarrow> hd xs \<le> last xs"
  by (cases xs) (auto simp: sorted_le_last)

lemma right_segment:
  assumes "in_right_phase s" "\<not> countdown_active s" "sorted bs" "bs \<noteq> []"
    and "last bs - hd bs < paused_time_left s"
  shows "run_ticks s env (right_ticks bs) =
           s\<lparr> countdown_active := True, phase_start_time := hd bs,
              time_left := paused_time_left s - (last bs - hd bs) \<rparr>"
proof -
  obtain b0 bs' where bs: "bs = b0 # bs'" using assms(4) by (cases bs) auto
  have span: "0 \<le> last bs - hd bs"
    using sorted_hd_le_last [OF assms(3,4)] by simp
  then have pos: "0 < paused_time_left s" using assms(5) by simp
  let ?s1 = "s\<lparr> countdown_active := True, phase_start_time := b0,
                 time_left := paused_time_left s \<rparr>"
  have ph: "phase_gaze (current_phase s) = GazeRight"
    using assms(1) by (simp add: in_right_phase_def)
  have u: "update_eye_exercise s env b0 GazeRight = ?s1"
    using update_resume_effect [of s env b0] assms(1,2) pos ph
    by (simp add: in_right_phase_def)
  have bound: "\<forall>a \<in> set bs'. a - phase_start_time ?s1 < paused_time_left ?s1"
  proof
    fix a assume "a \<in> set bs'"
    then have "a \<le> last bs" using sorted_le_last [OF assms(3), of a] bs by simp
    then show "a - phase_start_time ?s1 < paused_time_left ?s1"
      using assms(5) bs by simp
  qed
  have r: "run_ticks ?s1 env (right_ticks bs') =
       (if bs' = [] then ?s1
        else ?s1\<lparr> time_left := paused_time_left ?s1 - (last bs' - phase_start_time ?s1) \<rparr>)"
    by (rule run_right_counting [OF _ _ bound])
       (use assms(1) in \<open>simp_all add: in_right_phase_def\<close>)
  show ?thesis
    using u r bs by (simp add: right_ticks_def)
qed

lemma center_segment:
  assumes "in_right_phase s" "countdown_active s" "cs \<noteq> []"
  shows "in_right_phase (run_ticks s env (center_ticks cs))
       \<and> \<not> countdown_active (run_ticks s env (center_ticks cs))
       \<and> paused_time_left (run_ticks s env (center_ticks cs)) = time_left s
       \<and> time_left (run_ticks s env (center_ticks cs)) = time_left s"
proof -
  obtain c0 cs' where cs: "cs = c0 # cs'" using assms(3) by (cases cs) auto
  have ph: "current_phase s = PhaseRight" "eye_exercise_active s" "\<not> exercise_done s"
    using assms(1) by (simp_all add: in_right_phase_def)
  note p = update_pause_effect [of s GazeCenter env c0]
  have p': "\<not> countdown_active (update_eye_exercise s env c0 GazeCenter)"
     "paused_time_left (update_eye_exercise s env c0 GazeCenter) = time_left s"
     "time_left (update_eye_exercise s env c0 GazeCenter) = time_left s"
     "current_phase (update_eye_exercise s env c0 GazeCenter) = PhaseRight"
     "eye_exercise_active (update_eye_exercise s env c0 GazeCenter)"
     "\<not> exercise_done (update_eye_exercise s env c0 GazeCenter)"
    using p ph assms(2) by simp_all
  have "run_ticks (update_eye_exercise s env c0 GazeCenter) env (center_ticks cs')
          = update_eye_exercise s env c0 GazeCenter"
    by (rule run_paused_wrong_gaze) (use p' in \<open>auto simp: center_ticks_def\<close>)
  then show ?thesis
    using p' cs by (simp add: center_ticks_def in_right_phase_def)
qed

lemma pause_then_resume:
  fixes ws :: "(real \<times> gaze) list"
  assumes "eye_exercise_active s" "\<not> exercise_done s" "countdown_active s"
    and "0 < time_left s" "g \<noteq> phase_gaze (current_phase s)"
    and "\<forall>(t', g') \<in> set ws. g' \<noteq> phase_gaze (current_phase s)"
  shows "time_left (run_ticks (update_eye_exercise s env tp g) env ws) = time_left s"
    and "time_left (update_eye_exercise (run_ticks (update_eye_exercise s env tp g) env ws)
                      env tr (phase_gaze (current_phase s))) = time_left s"
    and "countdown_active (update_eye_exercise (run_ticks (update_eye_exercise s env tp g) env ws)
                      env tr (phase_gaze (current_phase s)))"
    and "current_phase (update_eye_exercise (run_ticks (update_eye_exercise s env tp g) env ws)
                      env tr (phase_gaze (current_phase s))) = current_phase s"
proof -
  let ?p = "update_eye_exercise s env tp g"
  note p = update_pause_effect [OF assms(1,2,3,5), of env tp]
  have r: "run_ticks ?p env ws = ?p"
    by (rule run_paused_wrong_gaze) (use p assms(6) in simp_all)
  have u: "update_eye_exercise ?p env tr (phase_gaze (current_phase ?p)) =
       ?p\<lparr> countdown_active := True, phase_start_time := tr, time_left := paused_time_left ?p \<rparr>"
    by (rule update_resume_effect) (use p assms(4) in simp_all)
  show "time_left (run_ticks ?p env ws) = time_left s" using r p by simp
  show "time_left (update_eye_exercise (run_ticks ?p env ws)
                      env tr (phase_gaze (current_phase s))) = time_left s"
    using r u p by simp
  show "countdown_active (update_eye_exercise (run_ticks ?p env ws)
                      env tr (phase_gaze (current_phase s)))"
    using r u p by simp
  show "current_phase (update_eye_exercise (run_ticks ?p env ws)
                      env tr (phase_gaze (current_phase s))) = current_phase s"
    using r u p by simp
qed

lemma right_center_right:
  assumes "as \<noteq> []" "cs \<noteq> []" "sorted as" "sorted bs"
    and "(last as - hd as) + (if bs = [] then 0 else last bs - hd bs) < 15"
  shows "in_right_phase (run_ticks (start_eye_exercise s env t0) env
            (right_ticks as @ center_ticks cs @ right_ticks bs))"
    and "time_left (run_ticks (start_eye_exercise s env t0) env
            (right_ticks as @ center_ticks cs @ right_ticks bs))
          = 15 - ((last as - hd as) + (if bs = [] then 0 else last bs - hd bs))"
proof -
  let ?s0 = "start_eye_exercise s env t0"
  have s0: "in_right_phase ?s0" "\<not> countdown_active ?s0" "paused_time_left ?s0 = 15"
    by (simp_all add: in_right_phase_def start_fields)
  have spb: "0 \<le> (if bs = [] then 0 else last bs - hd bs)"
    using sorted_hd_le_last [OF assms(4)] by simp
  let ?s1 = "run_ticks ?s0 env (right_ticks as)"
  have s1: "?s1 = ?s0\<lparr> countdown_active := True, phase_start_time := hd as,
              time_left := paused_time_left ?s0 - (last as - hd as) \<rparr>"
    by (rule right_segment [OF s0(1,2) assms(3,1)]) (use assms(5) spb s0(3) in simp)
  have s1f: "in_right_phase ?s1" "countdown_active ?s1" "time_left ?s1 = 15 - (last as - hd as)"
    using s0 by (simp_all add: s1 in_right_phase_def)
  let ?s2 = "run_ticks ?s1 env (center_ticks cs)"
  note c = center_segment [OF s1f(1,2) assms(2), of env]
  have s2f: "in_right_phase ?s2" "\<not> countdown_active ?s2"
    "paused_time_left ?s2 = 15 - (last as - hd as)" "time_left ?s2 = 15 - (last as - hd as)"
    using c s1f(3) by simp_all
  let ?s3 = "run_ticks ?s2 env (right_ticks bs)"
  have fin: "in_right_phase ?s3
      \<and> time_left ?s3 = 15 - ((last as - hd as) + (if bs = [] then 0 else last bs - hd bs))"
  proof (cases "bs = []")
    case True
    then show ?thesis using s2f by (simp add: right_ticks_def)
  next
    case False
    have "?s3 = ?s2\<lparr> countdown_active := True, phase_start_time := hd bs,
              time_left := paused_time_left ?s2 - (last bs - hd bs) \<rparr>"
      by (rule right_segment [OF s2f(1,2) assms(4) False])
         (use assms(5) False s2f(3) in simp)
    then show ?thesis using s2f False by (simp add: in_right_phase_def)
  qed
  have eq: "run_ticks ?s0 env (right_ticks as @ center_ticks cs @ right_ticks bs) = ?s3"
    by (simp add: run_ticks_append)
  show "in_right_phase (run_ticks ?s0 env (right_ticks as @ center_ticks cs @ right_ticks bs))"
    using fin eq by simp
  show "time_left (run_ticks ?s0 env (right_ticks as @ center_ticks cs @ right_ticks bs))
          = 15 - ((last as - hd as) + (if bs = [] then 0 else last bs - hd bs))"
    using fin eq by simp
qed

lemma start_time_update_right:
  "eye_exercise_start_time (update_right s env t g) = eye_exercise_start_time s"
  by (cases "g = GazeRight"; cases "countdown_active s")
     (simp_all add: update_right_def send_notification_eye Let_def)

lemma start_time_update_left:
  "eye_exercise_start_time (update_left s env t g) = eye_exercise_start_time s"
  by (cases "g = GazeLeft"; cases "countdown_active s")
     (simp_all add: update_left_def send_notification_eye Let_def)

lemma start_time_update:
  "eye_exercise_start_time (update_eye_exercise s env t g) = eye_exercise_start_time s"
  by (cases "current_phase s")
     (simp_all add: update_eye_exercise_def start_time_update_right start_time_update_left)

lemma start_time_run:
  "eye_exercise_start_time (run_ticks s env ticks) = eye_exercise_start_time s"
  by (induction ticks arbitrary: s) (auto simp: start_time_update)

lemma exercises_update_right:
  "sd_eye_exercises (update_right s env t g) = sd_eye_exercises s"
  by (cases "g = GazeRight"; cases "countdown_active s")
     (simp_all add: update_right_def send_notification_eye Let_def)

lemma exercises_update_left_wrong:
  "g \<noteq> GazeLeft \<Longrightarrow> sd_eye_exercises (update_left s env t g) = sd_eye_exercises s"
  by (cases "countdown_active s")
     (simp_all add: update_left_def send_notification_eye Let_def)

lemma exercises_update_right_gaze:
  "sd_eye_exercises (update_eye_exercise s env t GazeRight) = sd_eye_exercises s"
  by (cases "current_phase s")
     (simp_all add: update_eye_exercise_def exercises_update_right exercises_update_left_wrong)

lemma exercises_run_right_ticks:
  "sd_eye_exercises (run_ticks s env (right_ticks ts)) = sd_eye_exercises s"
  by (induction ts arbitrary: s) (auto simp: right_ticks_def exercises_update_right_gaze)

lemma update_right_complete:
  "in_right_phase s \<Longrightarrow> countdown_active s \<Longrightarrow>
   paused_time_left s \<le> t - phase_start_time s \<Longrightarrow>
     waiting_left (update_eye_exercise s env t GazeRight)"
  by (simp add: in_right_phase_def waiting_left_def update_eye_exercise_def update_right_def
        send_notification_eye Let_def max_def)

lemma run_right_until_left:
  "in_right_phase s \<Longrightarrow> countdown_active s \<Longrightarrow>
   \<exists>t \<in> set ts. paused_time_left s \<le> t - phase_start_time s \<Longrightarrow>
     waiting_left (run_ticks s env (right_ticks ts))"
proof (induction ts arbitrary: s)
  case Nil
  then show ?case by simp
next
  case (Cons a ts)
  show ?case
  proof (cases "paused_time_left s \<le> a - phase_start_time s")
    case True
    let ?s' = "update_eye_exercise s env a GazeRight"
    have w: "waiting_left ?s'"
      using Cons.prems(1,2) True by (rule update_right_complete)
    have "run_ticks ?s' env (right_ticks ts) = ?s'"
      by (rule run_paused_wrong_gaze) (use w in \<open>auto simp: waiting_left_def right_ticks_def\<close>)
    then show ?thesis using w by (simp add: right_ticks_def)
  next
    case False
    let ?s' = "s\<lparr> time_left := paused_time_left s - (a - phase_start_time s) \<rparr>"
    have u: "update_eye_exercise s env a GazeRight = ?s'"
      using Cons.prems(1,2) False by (simp add: update_right_counting)
    have "waiting_left (run_ticks ?s' env (right_ticks ts))"
      by (rule Cons.IH) (use Cons.prems False in \<open>auto simp: in_right_phase_def\<close>)
    then show ?thesis using u by (simp add: right_ticks_def)
  qed
qed

lemma update_left_counting:
  "counting_left s \<Longrightarrow> t - phase_start_time s < paused_time_left s \<Longrightarrow>
     update_eye_exercise s env t GazeLeft =
       s\<lparr> time_left := paused_time_left s - (t - phase_start_time s) \<rparr>"
  by (simp add: counting_left_def update_eye_exercise_def update_left_def Let_def max_def)

lemma update_left_complete:
  "counting_left s \<Longrightarrow> paused_time_left s \<le> t - phase_start_time s \<Longrightarrow>
     exercise_done (update_eye_exercise s env t GazeLeft)
     \<and> \<not> eye_exercise_active (update_eye_exercise s env t GazeLeft)
     \<and> sd_eye_exercises (update_eye_exercise s env t GazeLeft) =
         sd_eye_exercises s @
           [\<lparr> e_timestamp = t, e_duration = t - eye_exercise_start_time s, e_success = True \<rparr>]"
  by (simp add: counting_left_def update_eye_exercise_def update_left_def
        send_notification_eye Let_def max_def)

lemma run_left_until_done:
  "counting_left s \<Longrightarrow>
   find (\<lambda>u. paused_time_left s \<le> u - phase_start_time s) us = Some tc \<Longrightarrow>
     exercise_done (run_ticks s env (left_ticks us))
     \<and> \<not> eye_exercise_active (run_ticks s env (left_ticks us))
     \<and> sd_eye_exercises (run_ticks s env (left_ticks us)) =
         sd_eye_exercises s @
           [\<lparr> e_timestamp = tc, e_duration = tc - eye_exercise_start_time s, e_success = True \<rparr>]"
proof (induction us arbitrary: s)
  case Nil
  then show ?case by simp
next
  case (Cons a us)
  show ?case
  proof (cases "paused_time_left s \<le> a - phase_start_time s")
    case True
    then have tc: "tc = a" using Cons.prems(2) by simp
    let ?s' = "update_eye_exercise s env a GazeLeft"
    note c = update_left_complete [OF Cons.prems(1) True, of env]
    have "run_ticks ?s' env (left_ticks us) = ?s'"
      by (rule run_inactive) (use c in simp)
    then show ?thesis using c tc by (simp add: left_ticks_def)
  next
    case False
    let ?s' = "s\<lparr> time_left := paused_time_left s - (a - phase_start_time s) \<rparr>"
    have u: "update_eye_exercise s env a GazeLeft = ?s'"
      using Cons.prems(1) False by (simp add: update_left_counting)
    have f: "find (\<lambda>u. paused_time_left ?s' \<le> u - phase_start_time ?s') us = Some tc"
      using Cons.prems(2) False by simp
    have c: "counting_left ?s'" using Cons.prems(1) by (simp add: counting_left_def)
    show ?thesis
      using Cons.IH [OF c f] u by (simp add: left_ticks_def)
  qed
qed

lemma right_phase_completes:
  assumes "\<exists>t \<in> set rs. 15 \<le> t - r0"
  shows "waiting_left (run_ticks (start_eye_exercise s env t0) env (right_ticks (r0 # rs)))"
proof -
  let ?s0 = "start_eye_exercise s env t0"
  let ?s1 = "?s0\<lparr> countdown_active := True, phase_start_time := r0,
                  time_left := paused_time_left ?s0 \<rparr>"
  have u: "update_eye_exercise ?s0 env r0 (phase_gaze (current_phase ?s0)) = ?s1"
    by (rule update_resume_effect) (simp_all add: start_fields)
  have "waiting_left (run_ticks ?s1 env (right_ticks rs))"
    by (rule run_right_until_left) (use assms in \<open>simp_all add: in_right_phase_def start_fields\<close>)
  then show ?thesis
    using u by (simp add: right_ticks_def start_fields)
qed

lemma left_phase_completes:
  assumes "waiting_left s1" "find (\<lambda>u. 15 \<le> u - u0) us = Some tc"
  shows "exercise_done (run_ticks s1 env (left_ticks (u0 # us)))
     \<and> \<not> eye_exercise_active (run_ticks s1 env (left_ticks (u0 # us)))
     \<and> sd_eye_exercises (run_ticks s1 env (left_ticks (u0 # us))) =
         sd_eye_exercises s1 @
           [\<lparr> e_timestamp = tc, e_duration = tc - eye_exercise_start_time s1,
              e_success = True \<rparr>]"
proof -
  let ?s2 = "s1\<lparr> countdown_active := True, phase_start_time := u0,
                 time_left := paused_time_left s1 \<rparr>"
  have w: "eye_exercise_active s1" "\<not> exercise_done s1" "current_phase s1 = PhaseLeft"
    "\<not> countdown_active s1" "paused_time_left s1 = 15"
    using assms(1) by (simp_all add: waiting_left_def)
  have u: "update_eye_exercise s1 env u0 (phase_gaze (current_phase s1)) = ?s2"
    by (rule update_resume_effect) (simp_all add: w)
  have c: "counting_left ?s2" by (simp add: counting_left_def w)
  have f: "find (\<lambda>u. paused_time_left ?s2 \<le> u - phase_start_time ?s2) us = Some tc"
    using assms(2) by (simp add: w)
  show ?thesis
    using run_left_until_done [OF c f, of env] u by (simp add: left_ticks_def w)
qed

lemma find_real_Some:
  "find P (xs :: real list) = Some x \<Longrightarrow> x \<in> set xs \<and> P x"
  by (induction xs) (auto split: if_splits)

lemma should_check_iff:
  "should_check_auto_mode s now \<longleftrightarrow>
     auto_mode s \<and> AUTO_MODE_INTERVAL \<le> now - auto_mode_last_check s"
  by (simp add: should_check_auto_mode_def)

lemma start_count_start:
  "start_count (calls (start_eye_exercise s env now)) = start_count (calls s) + 1"
  by (simp add: start_eye_exercise_def send_notification_eye start_count_def Let_def)

lemma send_notification_frame:
  "auto_mode (send_notification s env now title m k) = auto_mode s"
  "auto_mode_last_check (send_notification s env now title m k) = auto_mode_last_check s"
  "eye_exercise_active (send_notification s env now title m k) = eye_exercise_active s"
  "eye_exercise_start_time (send_notification s env now title m k) = eye_exercise_start_time s"
  "start_count (calls (send_notification s env now title m k)) = start_count (calls s)"
  "last_break_time (send_notification s env now title m k) = last_break_time s"
  "psutil_available (send_notification s env now title m k) = psutil_available s"
  by (simp_all add: send_notification_def start_count_def Let_def)

lemma quiet_send:
  "quiet_at now s s1 \<Longrightarrow> quiet_at now s (send_notification s1 env t title m k)"
  by (auto simp: quiet_at_def no_start_between_def should_check_iff
        send_notification_frame)

lemma update_right_frame:
  "auto_mode (update_right s env t g) = auto_mode s"
  "auto_mode_last_check (update_right s env t g) = auto_mode_last_check s"
  "start_count (calls (update_right s env t g)) = start_count (calls s)"
  "last_break_time (update_right s env t g) = last_break_time s"
  "psutil_available (update_right s env t g) = psutil_available s"
  by (cases "g = GazeRight"; cases "countdown_active s";
      simp add: update_right_def send_notification_eye start_count_def Let_def)+

lemma update_left_frame:
  "auto_mode (update_left s env t g) = auto_mode s"
  "auto_mode_last_check (update_left s env t g) = auto_mode_last_check s
     \<or> auto_mode_last_check (update_left s env t g) = t"
  "start_count (calls (update_left s env t g)) = start_count (calls s)"
  "last_break_time (update_left s env t g) = last_break_time s"
  "psutil_available (update_left s env t g) = psutil_available s"
  by (cases "g = GazeLeft"; cases "countdown_active s";
      simp add: update_left_def send_notification_eye start_count_def Let_def)+

lemma update_frame:
  "auto_mode (update_eye_exercise s env t g) = auto_mode s"
  "auto_mode_last_check (update_eye_exercise s env t g) = auto_mode_last_check s
     \<or> auto_mode_last_check (update_eye_exercise s env t g) = t"
  "start_count (calls (update_eye_exercise s env t g)) = start_count (calls s)"
  "\<not> eye_exercise_active s \<Longrightarrow> \<not> eye_exercise_active (update_eye_exercise s env t g)"
  "last_break_time (update_eye_exercise s env t g) = last_break_time s"
  "psutil_available (update_eye_exercise s env t g) = psutil_available s"
  using update_left_frame(2) [of s env t g]
  by (cases "current_phase s";
      simp add: update_eye_exercise_def update_right_frame update_left_frame)+

lemma quiet_update:
  assumes "quiet_at now s s1"
  shows "quiet_at now s (update_eye_exercise s1 env now g)"
proof -
  have "\<not> should_check_auto_mode (update_eye_exercise s1 env now g) now"
    using assms update_frame(2) [of s1 env now g]
    by (auto simp: quiet_at_def should_check_iff update_frame(1)
          AUTO_MODE_INTERVAL_def)
  then show ?thesis
    using assms update_frame(2) [of s1 env now g]
    by (auto simp: quiet_at_def no_start_between_def update_frame(1,3,4,5,6)
          start_time_update)
qed

lemma quiet_auto_check: "quiet_at now s (auto_check_step s now)"
  by (auto simp: quiet_at_def no_start_between_def auto_check_step_def
        should_check_iff AUTO_MODE_INTERVAL_def)

lemma quiet_fields:
  "quiet_at now s s1 \<Longrightarrow> quiet_at now s (s1\<lparr> last_detection := g \<rparr>)"
  "quiet_at now s s1 \<Longrightarrow> quiet_at now s (s1\<lparr> blink_timestamps := b \<rparr>)"
  by (auto simp: quiet_at_def no_start_between_def should_check_iff)

lemma quiet_face_trigger:
  "quiet_at now s s1 \<Longrightarrow> face_auto_trigger s1 env now prox low = s1"
  by (simp add: quiet_at_def face_auto_trigger_def)

lemma quiet_face:
  assumes "quiet_at (f_now f) s (snd rs)"
  shows "quiet_at (f_now f) s (snd (face_step rs f))"
proof (cases "f_face f")
  case FaceRaises
  then show ?thesis using assms by (simp add: face_step_def)
next
  case NoFace
  then show ?thesis using assms by (simp add: face_step_def)
next
  case (Face g prox ear_opt)
  let ?now = "f_now f" and ?env = "f_notifier f"
  let ?s1 = "(snd rs)\<lparr> last_detection := g \<rparr>"
  let ?s2 = "if eye_exercise_active ?s1 then update_eye_exercise ?s1 ?env ?now g else ?s1"
  let ?s3 = "if prox \<and> should_notify ?s2 ?now proximity \<and> \<not> eye_exercise_active ?s2
             then send_notification ?s2 ?env ?now ''Move Back Slightly''
                    [Txt (''You'' @ [CHR 0x27] @
                      ''re sitting too close to the screen. Maintain 20-30cm distance.'')]
                    proximity
             else ?s2"
  have q1: "quiet_at ?now s ?s1" using assms by (rule quiet_fields)
  have q2: "quiet_at ?now s ?s2" using q1 by (simp add: quiet_update)
  have q3: "quiet_at ?now s ?s3" using q2 by (simp add: quiet_send)
  show ?thesis
  proof (cases ear_opt)
    case None
    then show ?thesis using Face q3 by (simp add: face_step_def Let_def)
  next
    case (Some ear)
    let ?s4 = "if ear < EAR_THRESHOLD
               then ?s3\<lparr> blink_timestamps := deque_append (blink_timestamps ?s3) ?now \<rparr>
               else ?s3"
    let ?low = "check_blink_rate ?s4 ?now"
    let ?s5 = "if ?low \<and> should_notify ?s4 ?now blink_rate \<and> \<not> eye_exercise_active ?s4
               then send_notification ?s4 ?env ?now ''Rest Your Eyes''
                      [Txt ''Your blink rate is low. Remember to blink regularly.''] blink_rate
               else ?s4"
    have q4: "quiet_at ?now s ?s4" using q3 by (simp add: quiet_fields)
    have q5: "quiet_at ?now s ?s5" using q4 by (simp add: quiet_send)
    have t: "face_auto_trigger ?s5 ?env ?now prox ?low = ?s5"
      using q5 by (rule quiet_face_trigger)
    have "snd (face_step rs f) = face_auto_trigger ?s5 ?env ?now prox ?low"
      using Face Some by (simp add: face_step_def Let_def)
    then show ?thesis using t q5 by simp
  qed
qed

lemma quiet_posture:
  assumes "quiet_at now s s1"
  shows "quiet_at now s (posture_step s1 env now pd)"
proof (cases "eye_exercise_active s1")
  case True
  then show ?thesis using assms by (simp add: posture_step_def)
next
  case False
  let ?a = "if is_tilted pd \<and> should_notify s1 now posture
            then send_notification s1 env now ''Adjust Your Posture''
                   [Txt ''Your head is tilted. Keep your head straight and aligned.''] posture
            else s1"
  let ?b = "if is_slouching pd \<and> should_notify ?a now posture
            then send_notification ?a env now ''Sit Up Straight''
                   [Txt (''You'' @ [CHR 0x27] @
                     ''re slouching. Straighten your back and relax your shoulders.'')] posture
            else ?a"
  have qa: "quiet_at now s ?a" using assms by (simp add: quiet_send)
  have qb: "quiet_at now s ?b" using qa by (simp add: quiet_send)
  have "posture_step s1 env now pd = ?b"
    using False qb by (simp add: posture_step_def Let_def quiet_at_def)
  then show ?thesis using qb by simp
qed

lemma quiet_pose:
  "quiet_at (f_now f) s (snd rs) \<Longrightarrow> quiet_at (f_now f) s (snd (pose_step rs f))"
  by (cases "f_pose f")
     (auto simp: pose_step_def Let_def quiet_posture split: option.splits)

lemma quiet_screen_time:
  "quiet_at (f_now f) s (snd rs) \<Longrightarrow> quiet_at (f_now f) s (snd (screen_time_step rs f))"
  by (simp add: screen_time_step_def Let_def quiet_send)

lemma quiet_temperature_loop:
  "quiet_at now s s1 \<Longrightarrow> quiet_at now s (snd (temperature_loop s1 env now items))"
proof (induction items arbitrary: s1)
  case Nil
  then show ?case by simp
next
  case (Cons p items)
  obtain key temp where p: "p = (key, temp)" by (cases p)
  show ?case
  proof (cases "py_in ''temp'' key")
    case False
    then show ?thesis using Cons p by simp
  next
    case True
    show ?thesis
    proof (cases "py_gt temp 70")
      case (Inl e)
      then show ?thesis using True p Cons.prems by simp
    next
      case (Inr hot)
      let ?s2 = "if hot \<and> should_notify s1 now system_health
                 then send_notification s1 env now ''System Running Hot''
                        [Txt ''High temperature detected ('', Fmt temp,
                         Txt ''C). Consider taking a break.''] system_health
                 else s1"
      have "quiet_at now s ?s2" using Cons.prems by (simp add: quiet_send)
      then have "quiet_at now s (snd (temperature_loop ?s2 env now items))"
        by (rule Cons.IH)
      then show ?thesis using True p Inr by simp
    qed
  qed
qed

lemma quiet_system_health:
  assumes "quiet_at (f_now f) s (snd rs)"
  shows "quiet_at (f_now f) s (snd (system_health_step rs f))"
proof -
  let ?info = "check_system_health (snd rs) (f_psutil f)"
  have "quiet_at (f_now f) s (snd (temperature_loop (snd rs) (f_notifier f) (f_now f) ?info))"
    using assms by (rule quiet_temperature_loop)
  then show ?thesis
    using assms
    by (auto simp: system_health_step_def Let_def split: prod.splits option.splits)
qed

lemma no_start_process_frame:
  "no_start_between s (snd (process_frame s f))"
proof (cases "mediapipe_available s")
  case False
  then show ?thesis by (simp add: process_frame_def no_start_between_def)
next
  case True
  let ?rs1 = "(empty_results, auto_check_step s (f_now f))"
  have "quiet_at (f_now f) s (snd ?rs1)" by (simp add: quiet_auto_check)
  then have "quiet_at (f_now f) s (snd (face_step ?rs1 f))" by (rule quiet_face)
  then have "quiet_at (f_now f) s (snd (pose_step (face_step ?rs1 f) f))" by (rule quiet_pose)
  then have "quiet_at (f_now f) s
      (snd (screen_time_step (pose_step (face_step ?rs1 f) f) f))"
    by (rule quiet_screen_time)
  then have "quiet_at (f_now f) s
      (snd (system_health_step (screen_time_step (pose_step (face_step ?rs1 f) f) f) f))"
    by (rule quiet_system_health)
  then show ?thesis using True by (simp add: process_frame_def Let_def quiet_at_def)
qed

lemma no_start_between_trans:
  "no_start_between s s1 \<Longrightarrow> no_start_between s1 s2 \<Longrightarrow> no_start_between s s2"
  by (auto simp: no_start_between_def)

lemma no_start_run_frames:
  "no_start_between s (snd (run_frames s frames))"
proof (induction frames arbitrary: s)
  case Nil
  then show ?case by (simp add: no_start_between_def)
next
  case (Cons f frames)
  obtain res s' where p: "process_frame s f = (res, s')" by (cases "process_frame s f")
  then have n: "no_start_between s s'" using no_start_process_frame [of s f] by simp
  show ?case
  proof (cases res)
    case (Inl e)
    then show ?thesis using p n by simp
  next
    case (Inr r)
    then show ?thesis
      using p no_start_between_trans [OF n Cons.IH [of s']] by simp
  qed
qed

lemma init_monitor_fields:
  "mediapipe_available (init_monitor mp_ok ps_ok am now) = mp_ok"
  "psutil_available (init_monitor mp_ok ps_ok am now) = ps_ok"
  "auto_mode (init_monitor mp_ok ps_ok am now) = am"
  "session_start (init_monitor mp_ok ps_ok am now) = now"
  "last_break_time (init_monitor mp_ok ps_ok am now) = now"
  "eye_exercise_active (init_monitor mp_ok ps_ok am now) = False"
  "auto_mode_last_check (init_monitor mp_ok ps_ok am now) = now"
  "calls (init_monitor mp_ok ps_ok am now) = []"
  by (simp_all add: init_monitor_def)

lemma quiet_process_frame:
  assumes "mediapipe_available s"
  shows "\<exists>rs. process_frame s f = system_health_step rs f
            \<and> quiet_at (f_now f) s (snd rs)
            \<and> quiet_at (f_now f) s (snd (system_health_step rs f))"
proof -
  let ?rs1 = "(empty_results, auto_check_step s (f_now f))"
  let ?rs4 = "screen_time_step (pose_step (face_step ?rs1 f) f) f"
  have "quiet_at (f_now f) s (snd ?rs1)" by (simp add: quiet_auto_check)
  then have "quiet_at (f_now f) s (snd (face_step ?rs1 f))" by (rule quiet_face)
  then have "quiet_at (f_now f) s (snd (pose_step (face_step ?rs1 f) f))" by (rule quiet_pose)
  then have q4: "quiet_at (f_now f) s (snd ?rs4)" by (rule quiet_screen_time)
  then have q5: "quiet_at (f_now f) s (snd (system_health_step ?rs4 f))"
    by (rule quiet_system_health)
  have "process_frame s f = system_health_step ?rs4 f"
    using assms by (simp add: process_frame_def Let_def)
  with q4 q5 show ?thesis by blast
qed

lemma py_in_temp_keys:
  "\<not> py_in ''temp'' ''available''" "\<not> py_in ''temp'' ''battery_percent''"
  "\<not> py_in ''temp'' ''power_plugged''" "\<not> py_in ''temp'' ''battery_seconds_left''"
  "py_in ''temp'' ''temperature''"
  by simp_all

lemma health_no_sensors:
  assumes "psutil_available s" "sensors_battery ps = Returned bat"
    and "sensors_temperatures ps = Returned []"
  shows "check_system_health s ps =
     [(''available'', VBool True)] @
     (case bat of None \<Rightarrow> []
      | Some b \<Rightarrow> [(''battery_percent'', VNum (percent b)),
                   (''power_plugged'', VBool (power_plugged b)),
                   (''battery_seconds_left'', VNum (secsleft b))]) @
     [(''temperature'', VStr ''unavailable'')]"
  using assms by (cases bat) (simp_all add: check_system_health_def)

lemma health_step_raises:
  assumes "psutil_available (snd rs)" "\<not> eye_exercise_active (snd rs)"
    and "py_int (f_now f) mod 10 = 0"
    and "sensors_battery (f_psutil f) = Returned bat"
    and "sensors_temperatures (f_psutil f) = Returned []"
  shows "system_health_step rs f = (Inl TypeError, snd rs)"
proof -
  note h = health_no_sensors [OF assms(1,4,5)]
  show ?thesis
    using assms(2,3)
    by (cases bat) (simp_all add: system_health_step_def h py_in_temp_keys)
qed

lemma periodic_check_respects_exercise:
  "eye_exercise_active (g_monitor g) \<Longrightarrow> check_background_operation g now = g"
  by (simp add: check_background_operation_def)

subsection \<open>The claims\<close>

text \<open>
  Claim C10. Whenever a notification request is accepted (the cooldown has elapsed, or the
  kind is \<open>eye_exercise\<close>), the monitor sets the last-fired instant of the kind, adds one
  to its counter and appends the alert record; the resulting monitor is the same for every
  notifier environment, so also when \<^verbatim>\<open>fast_notify\<close> reports that nothing was delivered.
\<close>

theorem accepted_request_recorded_whatever_delivery:
  "should_notify s now k \<or> k = eye_exercise \<Longrightarrow>
     (let s' = send_notification s env now title message k in
        last_notification s' k = Some now
      \<and> alert_stats s' k = alert_stats s k + 1
      \<and> sd_alerts s' = sd_alerts s @
            [\<lparr> a_timestamp = now, a_type = k, a_title = title, a_message = message \<rparr>]
      \<and> (\<forall>env'. send_notification s env' now title message k = s'))"
  by (auto simp: send_notification_def Let_def)

theorem accepted_request_recorded_whatever_delivery_witness:
  "\<not> fast_notify env_none ''t'' [Txt ''m''] \<and>
   fast_notify env_plyer ''t'' [Txt ''m''] \<and>
   should_notify (init_monitor True True False 100) 100 proximity \<and>
   (let s' = send_notification (init_monitor True True False 100) env_none 100
               ''t'' [Txt ''m''] proximity in
        last_notification s' proximity = Some 100
      \<and> alert_stats s' proximity = 1
      \<and> sd_alerts s' =
            [\<lparr> a_timestamp = 100, a_type = proximity, a_title = ''t'',
               a_message = [Txt ''m''] \<rparr>]
      \<and> send_notification (init_monitor True True False 100) env_plyer 100
               ''t'' [Txt ''m''] proximity = s')"
  using accepted_request_recorded_whatever_delivery
          [of "init_monitor True True False 100" 100 proximity env_none "''t''" "[Txt ''m'']"]
  by (simp add: should_notify_def init_monitor_def NOTIFICATION_COOLDOWN_def fast_notify_def
        env_none_def env_plyer_def Let_def)

text \<open>
  Claim C5. For a kind other than \<open>eye_exercise\<close>, a request accepted at \<open>t1\<close> followed by
  a request of the same kind less than the cooldown (30 s) later makes one notifier call
  and one ledger record in all, and the second request leaves the monitor as it was.
  For \<open>eye_exercise\<close> both requests call the notifier and are recorded.
\<close>

theorem cooldown_gates_second_request:
  "(k \<noteq> eye_exercise \<longrightarrow> should_notify s t1 k \<longrightarrow> t2 - t1 < NOTIFICATION_COOLDOWN \<longrightarrow>
      (let s1 = send_notification s env1 t1 title1 m1 k;
           s2 = send_notification s1 env2 t2 title2 m2 k
       in s2 = s1
        \<and> calls s2 = calls s @ [FastNotify title1 m1]
        \<and> sd_alerts s2 = sd_alerts s @
             [\<lparr> a_timestamp = t1, a_type = k, a_title = title1, a_message = m1 \<rparr>]
        \<and> alert_stats s2 k = alert_stats s k + 1
        \<and> last_notification s2 k = Some t1))
   \<and> (let s1 = send_notification s env1 t1 title1 m1 eye_exercise;
           s2 = send_notification s1 env2 t2 title2 m2 eye_exercise
       in calls s2 = calls s @ [FastNotify title1 m1, FastNotify title2 m2]
        \<and> sd_alerts s2 = sd_alerts s @
             [\<lparr> a_timestamp = t1, a_type = eye_exercise, a_title = title1, a_message = m1 \<rparr>,
              \<lparr> a_timestamp = t2, a_type = eye_exercise, a_title = title2, a_message = m2 \<rparr>]
        \<and> alert_stats s2 eye_exercise = alert_stats s eye_exercise + 2
        \<and> last_notification s2 eye_exercise = Some t2)"
  by (auto simp: send_notification_def should_notify_def Let_def)

theorem cooldown_gates_second_request_witness:
  "posture \<noteq> eye_exercise \<and> should_notify (init_monitor True True False 100) 100 posture
   \<and> (129 :: real) - 100 < NOTIFICATION_COOLDOWN
   \<and> (let s1 = send_notification (init_monitor True True False 100) env_plyer 100
                 ''a'' [Txt ''x''] posture;
           s2 = send_notification s1 env_none 129 ''b'' [Txt ''y''] posture
       in s2 = s1
        \<and> calls s2 = calls (init_monitor True True False 100) @ [FastNotify ''a'' [Txt ''x'']]
        \<and> sd_alerts s2 = sd_alerts (init_monitor True True False 100) @
             [\<lparr> a_timestamp = 100, a_type = posture, a_title = ''a'', a_message = [Txt ''x''] \<rparr>]
        \<and> alert_stats s2 posture = alert_stats (init_monitor True True False 100) posture + 1
        \<and> last_notification s2 posture = Some 100)"
proof -
  have a: "posture \<noteq> eye_exercise" by simp
  have b: "should_notify (init_monitor True True False 100) 100 posture"
    by (simp add: should_notify_def init_monitor_def NOTIFICATION_COOLDOWN_def)
  have c: "(129 :: real) - 100 < NOTIFICATION_COOLDOWN"
    by (simp add: NOTIFICATION_COOLDOWN_def)
  show ?thesis
    using a b c
      cooldown_gates_second_request
        [of posture "init_monitor True True False 100" 100 129 env_plyer "''a''" "[Txt ''x'']"
            env_none "''b''" "[Txt ''y'']"]
    by blast
qed

text \<open>
  Claim C3, as stated, fails: started again during the left phase, the exercise is back in
  the right phase with a new start instant.
\<close>

theorem start_while_active_counterexample:
  "eye_exercise_active ex_left \<and> \<not> exercise_done ex_left
   \<and> current_phase ex_left = PhaseLeft
   \<and> current_phase (start_eye_exercise ex_left env_none 20) = PhaseRight
   \<and> eye_exercise_start_time ex_left = 0
   \<and> eye_exercise_start_time (start_eye_exercise ex_left env_none 20) = 20
   \<and> start_eye_exercise ex_left env_none 20 \<noteq> ex_left"
proof -
  have p: "current_phase (start_eye_exercise ex_left env_none 20) = PhaseRight"
    and t: "eye_exercise_start_time (start_eye_exercise ex_left env_none 20) = 20"
    by (simp_all add: start_eye_exercise_def send_notification_eye Let_def)
  have "start_eye_exercise ex_left env_none 20 \<noteq> ex_left"
    using p ex_left_fields(4) by auto
  with p t ex_left_fields show ?thesis by simp
qed

text \<open>
  Claim C3, amended. \<^verbatim>\<open>start_eye_exercise\<close> has no guard: from every state, active or
  not, it restarts the exercise (right phase, 15 s remaining, countdown stopped, start
  instant \<open>now\<close>), speaks the opening prompt and records one guidance notification. It
  leaves the list of completed exercises as it is.
\<close>

theorem start_eye_exercise_restarts:
  "(let s' = start_eye_exercise s env now in
      eye_exercise_active s' \<and> \<not> exercise_done s'
    \<and> current_phase s' = PhaseRight \<and> time_left s' = 15 \<and> paused_time_left s' = 15
    \<and> \<not> countdown_active s'
    \<and> eye_exercise_start_time s' = now \<and> phase_start_time s' = now
    \<and> calls s' = calls s @
         [Speak ''Eye exercise starting. Please look to the right for fifteen seconds.'',
          FastNotify ''Eye Exercise Time!'' [Txt ''Please look to the RIGHT side for 15 seconds'']]
    \<and> sd_alerts s' = sd_alerts s @
         [\<lparr> a_timestamp = now, a_type = eye_exercise, a_title = ''Eye Exercise Time!'',
            a_message = [Txt ''Please look to the RIGHT side for 15 seconds''] \<rparr>]
    \<and> alert_stats s' eye_exercise = alert_stats s eye_exercise + 1
    \<and> sd_eye_exercises s' = sd_eye_exercises s)"
  by (simp add: start_eye_exercise_def send_notification_eye Let_def)

text \<open>
  Claim C8. One tick adds a "keep looking" re-prompt to the trace exactly when the exercise
  is active, its countdown is running and the gaze is not the one the phase waits for, and
  then it adds exactly one and the countdown stops: the re-prompt fires only on the edge
  from running to paused. Every later tick with a wrong gaze, while the countdown is still
  paused, leaves the whole monitor (state, ledger and trace) unchanged.
\<close>

theorem keep_looking_once_per_edge:
  "length (filter is_keep_looking (calls (update_eye_exercise s env t g))) =
     length (filter is_keep_looking (calls s)) +
       (if eye_exercise_active s \<and> \<not> exercise_done s \<and> countdown_active s
           \<and> g \<noteq> phase_gaze (current_phase s) then 1 else 0)
   \<and> (eye_exercise_active s \<and> \<not> exercise_done s \<and> countdown_active s
         \<and> g \<noteq> phase_gaze (current_phase s) \<longrightarrow>
       \<not> countdown_active (update_eye_exercise s env t g)
       \<and> (\<forall>ws. (\<forall>(t', g') \<in> set ws. g' \<noteq> phase_gaze (current_phase s)) \<longrightarrow>
             run_ticks (update_eye_exercise s env t g) env ws = update_eye_exercise s env t g))
   \<and> (\<not> countdown_active s \<and> g \<noteq> phase_gaze (current_phase s) \<longrightarrow>
       update_eye_exercise s env t g = s)"
proof (intro conjI impI allI)
  show "length (filter is_keep_looking (calls (update_eye_exercise s env t g))) =
     length (filter is_keep_looking (calls s)) +
       (if eye_exercise_active s \<and> \<not> exercise_done s \<and> countdown_active s
           \<and> g \<noteq> phase_gaze (current_phase s) then 1 else 0)"
    by (rule update_keep_looking_count)
next
  assume a: "eye_exercise_active s \<and> \<not> exercise_done s \<and> countdown_active s
         \<and> g \<noteq> phase_gaze (current_phase s)"
  then show "\<not> countdown_active (update_eye_exercise s env t g)"
    using update_pause_effect [of s g env t] by simp
next
  fix ws :: "(real \<times> gaze) list"
  assume a: "eye_exercise_active s \<and> \<not> exercise_done s \<and> countdown_active s
         \<and> g \<noteq> phase_gaze (current_phase s)"
    and w: "\<forall>(t', g') \<in> set ws. g' \<noteq> phase_gaze (current_phase s)"
  from a have p: "\<not> countdown_active (update_eye_exercise s env t g)"
    "current_phase (update_eye_exercise s env t g) = current_phase s"
    using update_pause_effect [of s g env t] by simp_all
  show "run_ticks (update_eye_exercise s env t g) env ws = update_eye_exercise s env t g"
    by (rule run_paused_wrong_gaze) (use p w in simp_all)
next
  assume "\<not> countdown_active s \<and> g \<noteq> phase_gaze (current_phase s)"
  then show "update_eye_exercise s env t g = s"
    by (simp add: update_paused_wrong_gaze)
qed

theorem keep_looking_once_per_edge_witness:
  "eye_exercise_active ex_counting \<and> \<not> exercise_done ex_counting
   \<and> countdown_active ex_counting \<and> GazeCenter \<noteq> phase_gaze (current_phase ex_counting)
   \<and> GazeLeft \<noteq> phase_gaze (current_phase ex_counting)
   \<and> length (filter is_keep_looking (calls (update_eye_exercise ex_counting env_none 5 GazeCenter)))
       = length (filter is_keep_looking (calls ex_counting)) + 1
   \<and> \<not> countdown_active (update_eye_exercise ex_counting env_none 5 GazeCenter)
   \<and> run_ticks (update_eye_exercise ex_counting env_none 5 GazeCenter) env_none
        [(6, GazeCenter), (7, GazeLeft)]
       = update_eye_exercise ex_counting env_none 5 GazeCenter"
proof -
  have h: "eye_exercise_active ex_counting \<and> \<not> exercise_done ex_counting
     \<and> countdown_active ex_counting \<and> GazeCenter \<noteq> phase_gaze (current_phase ex_counting)"
    by (simp add: ex_counting_fields)
  have w: "\<forall>(t', g') \<in> set [(6::real, GazeCenter), (7, GazeLeft)].
         g' \<noteq> phase_gaze (current_phase ex_counting)"
    by (simp add: ex_counting_fields)
  note T = keep_looking_once_per_edge [of ex_counting env_none 5 GazeCenter]
  from T [THEN conjunct1] h have c1: "length (filter is_keep_looking
        (calls (update_eye_exercise ex_counting env_none 5 GazeCenter)))
       = length (filter is_keep_looking (calls ex_counting)) + 1"
    by simp
  note T2 = mp [OF T [THEN conjunct2, THEN conjunct1] h]
  note c2 = T2 [THEN conjunct1]
  note c4 = mp [OF spec [OF T2 [THEN conjunct2]] w]
  show ?thesis
    by (intro conjI) (use h w c1 c2 c4 in simp_all)
qed

text \<open>
  Claim C7. (a) After a fresh start, ticks of the form right, center, right (the times of
  each run of right ticks in order, at least one center tick in between) whose two right
  runs last less than 15 s in sum never complete the right phase: after every prefix of the
  ticks the exercise is still active in phase right, and at the end the remaining time is
  15 minus that sum. (b) From a running countdown with a positive remaining time, a tick
  with a wrong gaze at \<open>tp\<close>, any further wrong-gaze ticks, and then a tick with the right
  gaze at \<open>tr\<close> leave the remaining time at its value at the pause, whatever \<open>tp\<close> and
  \<open>tr\<close> are.
\<close>

theorem pause_resume_accounting:
  fixes ws :: "(real \<times> gaze) list"
  shows
  "(as \<noteq> [] \<and> cs \<noteq> [] \<and> sorted as \<and> sorted bs
      \<and> (last as - hd as) + (if bs = [] then 0 else last bs - hd bs) < 15 \<longrightarrow>
      (\<forall>n. in_right_phase (run_ticks (start_eye_exercise s0 env t0) env
              (take n (right_ticks as @ center_ticks cs @ right_ticks bs))))
      \<and> time_left (run_ticks (start_eye_exercise s0 env t0) env
              (right_ticks as @ center_ticks cs @ right_ticks bs))
          = 15 - ((last as - hd as) + (if bs = [] then 0 else last bs - hd bs)))
   \<and> (eye_exercise_active s \<and> \<not> exercise_done s \<and> countdown_active s \<and> 0 < time_left s
        \<and> g \<noteq> phase_gaze (current_phase s)
        \<and> (\<forall>(t', g') \<in> set ws. g' \<noteq> phase_gaze (current_phase s)) \<longrightarrow>
      (let paused = run_ticks (update_eye_exercise s env tp g) env ws;
           resumed = update_eye_exercise paused env tr (phase_gaze (current_phase s))
       in time_left paused = time_left s \<and> time_left resumed = time_left s
          \<and> countdown_active resumed \<and> current_phase resumed = current_phase s))"
proof (intro conjI impI allI)
  fix n
  assume a: "as \<noteq> [] \<and> cs \<noteq> [] \<and> sorted as \<and> sorted bs
      \<and> (last as - hd as) + (if bs = [] then 0 else last bs - hd bs) < 15"
  then have "in_right_phase (run_ticks (start_eye_exercise s0 env t0) env
            (right_ticks as @ center_ticks cs @ right_ticks bs))"
    using right_center_right(1) [of as cs bs s0 env t0] by blast
  then show "in_right_phase (run_ticks (start_eye_exercise s0 env t0) env
              (take n (right_ticks as @ center_ticks cs @ right_ticks bs)))"
    by (rule in_right_phase_prefix)
next
  assume a: "as \<noteq> [] \<and> cs \<noteq> [] \<and> sorted as \<and> sorted bs
      \<and> (last as - hd as) + (if bs = [] then 0 else last bs - hd bs) < 15"
  then show "time_left (run_ticks (start_eye_exercise s0 env t0) env
              (right_ticks as @ center_ticks cs @ right_ticks bs))
          = 15 - ((last as - hd as) + (if bs = [] then 0 else last bs - hd bs))"
    using right_center_right(2) [of as cs bs s0 env t0] by blast
next
  assume b: "eye_exercise_active s \<and> \<not> exercise_done s \<and> countdown_active s \<and> 0 < time_left s
        \<and> g \<noteq> phase_gaze (current_phase s)
        \<and> (\<forall>(t', g') \<in> set ws. g' \<noteq> phase_gaze (current_phase s))"
  then have h: "eye_exercise_active s" "\<not> exercise_done s" "countdown_active s"
    "0 < time_left s" "g \<noteq> phase_gaze (current_phase s)"
    "\<forall>(t', g') \<in> set ws. g' \<noteq> phase_gaze (current_phase s)"
    by simp_all
  show "let paused = run_ticks (update_eye_exercise s env tp g) env ws;
           resumed = update_eye_exercise paused env tr (phase_gaze (current_phase s))
       in time_left paused = time_left s \<and> time_left resumed = time_left s
          \<and> countdown_active resumed \<and> current_phase resumed = current_phase s"
    unfolding Let_def
    using pause_then_resume [OF h] by simp
qed

theorem pause_resume_accounting_witness:
  "([1, 4 :: real] \<noteq> [] \<and> [5 :: real] \<noteq> [] \<and> sorted [1, 4 :: real] \<and> sorted [20, 25 :: real]
      \<and> (last [1, 4 :: real] - hd [1, 4]) +
          (if [20, 25 :: real] = [] then 0 else last [20, 25] - hd [20, 25]) < 15)
   \<and> (\<forall>n. in_right_phase
          (run_ticks (start_eye_exercise (init_monitor True True False 0) env_none 0) env_none
             (take n (right_ticks [1, 4] @ center_ticks [5] @ right_ticks [20, 25]))))
   \<and> time_left
        (run_ticks (start_eye_exercise (init_monitor True True False 0) env_none 0) env_none
           (right_ticks [1, 4] @ center_ticks [5] @ right_ticks [20, 25])) = 7
   \<and> (eye_exercise_active ex_counting \<and> \<not> exercise_done ex_counting
        \<and> countdown_active ex_counting \<and> 0 < time_left ex_counting
        \<and> GazeCenter \<noteq> phase_gaze (current_phase ex_counting)
        \<and> GazeLeft \<noteq> phase_gaze (current_phase ex_counting))
   \<and> time_left
        (update_eye_exercise
           (run_ticks (update_eye_exercise ex_counting env_none 5 GazeCenter) env_none
              [(6, GazeLeft)])
           env_none 1000 (phase_gaze (current_phase ex_counting))) = 12"
proof -
  have a: "[1, 4 :: real] \<noteq> [] \<and> [5 :: real] \<noteq> [] \<and> sorted [1, 4 :: real]
      \<and> sorted [20, 25 :: real]
      \<and> (last [1, 4 :: real] - hd [1, 4]) +
          (if [20, 25 :: real] = [] then 0 else last [20, 25] - hd [20, 25]) < 15"
    by simp
  have b: "eye_exercise_active ex_counting \<and> \<not> exercise_done ex_counting
        \<and> countdown_active ex_counting \<and> 0 < time_left ex_counting
        \<and> GazeCenter \<noteq> phase_gaze (current_phase ex_counting)
        \<and> (\<forall>(t', g') \<in> set [(6 :: real, GazeLeft)]. g' \<noteq> phase_gaze (current_phase ex_counting))"
    by (simp add: ex_counting_fields)
  note T = pause_resume_accounting
             [of "[1, 4]" "[5]" "[20, 25]" "init_monitor True True False 0" env_none 0
                 ex_counting GazeCenter "[(6, GazeLeft)]" 5 1000]
  note A = mp [OF T [THEN conjunct1] a]
  note B = mp [OF T [THEN conjunct2] b]
  have a2: "time_left
        (run_ticks (start_eye_exercise (init_monitor True True False 0) env_none 0) env_none
           (right_ticks [1, 4] @ center_ticks [5] @ right_ticks [20, 25])) = 7"
    using A [THEN conjunct2] by simp
  have b2: "time_left
        (update_eye_exercise
           (run_ticks (update_eye_exercise ex_counting env_none 5 GazeCenter) env_none
              [(6, GazeLeft)])
           env_none 1000 (phase_gaze (current_phase ex_counting))) = 12"
    using B by (simp add: Let_def ex_counting_fields)
  show ?thesis
    using a b A [THEN conjunct1] a2 b2 by (intro conjI) simp_all
qed

text \<open>
  Claim C6. After \<^verbatim>\<open>start_eye_exercise\<close> at \<open>t0\<close>, right ticks that begin at \<open>r0\<close> and
  include a tick at least 15 s after \<open>r0\<close> leave the exercise active in phase left with
  15 s remaining and the countdown stopped, and no exercise record added. Left ticks that
  then begin at \<open>u0\<close>, the first of them at least 15 s after \<open>u0\<close> being \<open>tc\<close>, leave the
  exercise done and inactive, with exactly one exercise record added: success, duration
  \<open>tc - t0\<close>. When the instants are in order that duration is at least 30 s.
\<close>

theorem exercise_runs_to_completion:
  "(\<exists>t \<in> set rs. 15 \<le> t - r0) \<and> find (\<lambda>u. 15 \<le> u - u0) us = Some tc \<longrightarrow>
     (let s1 = run_ticks (start_eye_exercise s env t0) env (right_ticks (r0 # rs));
          s2 = run_ticks s1 env (left_ticks (u0 # us))
      in eye_exercise_active s1 \<and> \<not> exercise_done s1 \<and> current_phase s1 = PhaseLeft
         \<and> time_left s1 = 15 \<and> \<not> countdown_active s1
         \<and> sd_eye_exercises s1 = sd_eye_exercises s
         \<and> exercise_done s2 \<and> \<not> eye_exercise_active s2
         \<and> sd_eye_exercises s2 = sd_eye_exercises s @
              [\<lparr> e_timestamp = tc, e_duration = tc - t0, e_success = True \<rparr>]
         \<and> (sorted (t0 # r0 # rs @ u0 # us) \<longrightarrow> 30 \<le> tc - t0))"
proof
  assume a: "(\<exists>t \<in> set rs. 15 \<le> t - r0) \<and> find (\<lambda>u. 15 \<le> u - u0) us = Some tc"
  let ?s1 = "run_ticks (start_eye_exercise s env t0) env (right_ticks (r0 # rs))"
  let ?s2 = "run_ticks ?s1 env (left_ticks (u0 # us))"
  from a have w: "waiting_left ?s1" by (simp add: right_phase_completes)
  have st: "eye_exercise_start_time ?s1 = t0"
    by (simp add: start_time_run start_fields)
  have ex: "sd_eye_exercises ?s1 = sd_eye_exercises s"
    by (simp add: exercises_run_right_ticks start_fields)
  from a have f: "find (\<lambda>u. 15 \<le> u - u0) us = Some tc" by simp
  note l = left_phase_completes [OF w f, of env]
  have d: "sorted (t0 # r0 # rs @ u0 # us) \<longrightarrow> 30 \<le> tc - t0"
  proof
    assume srt: "sorted (t0 # r0 # rs @ u0 # us)"
    from a obtain t where t: "t \<in> set rs" "15 \<le> t - r0" by blast
    from find_real_Some [OF f] have tc: "15 \<le> tc - u0" by simp
    from srt have "t0 \<le> r0" by simp
    moreover from srt t(1) have "t \<le> u0" by (auto simp: sorted_append)
    ultimately show "30 \<le> tc - t0" using t(2) tc by simp
  qed
  show "let s1 = ?s1; s2 = run_ticks s1 env (left_ticks (u0 # us))
      in eye_exercise_active s1 \<and> \<not> exercise_done s1 \<and> current_phase s1 = PhaseLeft
         \<and> time_left s1 = 15 \<and> \<not> countdown_active s1
         \<and> sd_eye_exercises s1 = sd_eye_exercises s
         \<and> exercise_done s2 \<and> \<not> eye_exercise_active s2
         \<and> sd_eye_exercises s2 = sd_eye_exercises s @
              [\<lparr> e_timestamp = tc, e_duration = tc - t0, e_success = True \<rparr>]
         \<and> (sorted (t0 # r0 # rs @ u0 # us) \<longrightarrow> 30 \<le> tc - t0)"
    unfolding Let_def
    using w l d st ex by (simp add: waiting_left_def)
qed

theorem exercise_runs_to_completion_witness:
  "((\<exists>t \<in> set [10, 16 :: real]. 15 \<le> t - 1) \<and> find (\<lambda>u. 15 \<le> u - 17) [25, 32, 33 :: real] = Some 32)
   \<and> (let s1 = run_ticks (start_eye_exercise (init_monitor True True False 0) env_none 0)
                   env_none (right_ticks (1 # [10, 16]));
           s2 = run_ticks s1 env_none (left_ticks (17 # [25, 32, 33]))
       in eye_exercise_active s1 \<and> \<not> exercise_done s1 \<and> current_phase s1 = PhaseLeft
         \<and> time_left s1 = 15 \<and> \<not> countdown_active s1
         \<and> sd_eye_exercises s1 = sd_eye_exercises (init_monitor True True False 0)
         \<and> exercise_done s2 \<and> \<not> eye_exercise_active s2
         \<and> sd_eye_exercises s2 = sd_eye_exercises (init_monitor True True False 0) @
              [\<lparr> e_timestamp = 32, e_duration = 32 - 0, e_success = True \<rparr>]
         \<and> sorted (0 # 1 # [10, 16] @ 17 # [25, 32, 33 :: real]) \<and> (30 :: real) \<le> 32 - 0)"
proof -
  have a: "(\<exists>t \<in> set [10, 16 :: real]. 15 \<le> t - 1)
      \<and> find (\<lambda>u. 15 \<le> u - 17) [25, 32, 33 :: real] = Some 32"
    by simp
  have b: "sorted (0 # 1 # [10, 16] @ 17 # [25, 32, 33 :: real])"
    by simp
  show ?thesis
    using a b mp [OF exercise_runs_to_completion
                     [of "[10, 16]" 1 17 "[25, 32, 33]" 32 "init_monitor True True False 0"
                         env_none 0] a]
    by (simp add: Let_def)
qed

text \<open>
  Claim C9. In manual mode no sequence of frames, whatever alert signals they carry, starts
  the exercise: after the frames the monitor is still in manual mode, the trace holds as
  many opening prompts of \<^verbatim>\<open>start_eye_exercise\<close> as before, the start instant is the
  same, and an exercise that was not active is not active. An explicit call of
  \<^verbatim>\<open>start_eye_exercise\<close> does add one opening prompt.
\<close>

theorem manual_mode_never_starts_exercise:
  "\<not> auto_mode s \<longrightarrow>
     (let s' = snd (run_frames s frames)
      in \<not> auto_mode s'
         \<and> start_count (calls s') = start_count (calls s)
         \<and> eye_exercise_start_time s' = eye_exercise_start_time s
         \<and> (\<not> eye_exercise_active s \<longrightarrow> \<not> eye_exercise_active s')
         \<and> start_count (calls (start_eye_exercise s' env now)) = start_count (calls s) + 1)"
  using no_start_run_frames [of s frames]
  by (simp add: Let_def no_start_between_def start_count_start)

theorem manual_mode_never_starts_exercise_witness:
  "\<not> auto_mode (init_monitor True True False 0)
   \<and> \<not> eye_exercise_active (init_monitor True True False 0)
   \<and> (let s' = snd (run_frames (init_monitor True True False 0)
                      [frame_all_alerts, frame_all_alerts\<lparr> f_now := 1306 \<rparr>])
      in \<not> auto_mode s'
         \<and> start_count (calls s') = start_count (calls (init_monitor True True False 0))
         \<and> eye_exercise_start_time s' = eye_exercise_start_time (init_monitor True True False 0)
         \<and> \<not> eye_exercise_active s')"
proof -
  have a: "\<not> auto_mode (init_monitor True True False 0)"
    and b: "\<not> eye_exercise_active (init_monitor True True False 0)"
    by (simp_all add: init_monitor_def)
  show ?thesis
    using a b mp [OF manual_mode_never_starts_exercise
                       [of "init_monitor True True False 0"
                           "[frame_all_alerts, frame_all_alerts\<lparr> f_now := 1306 \<rparr>]"
                           env_none 0] a]
    by (simp add: Let_def)
qed

text \<open>
  Claim C1; the code departs from it. In auto mode with the poll interval elapsed and no
  exercise active, \<^verbatim>\<open>process_frame\<close> stamps \<open>auto_mode_last_check\<close> with the instant of
  the frame, as the claim says. The two triggers then ask \<open>should_check_auto_mode\<close> again,
  and the stamp has just made it false: whatever alerts the frame carries, no exercise is
  started (no opening prompt in the trace, the exercise stays inactive) and
  \<open>last_break_time\<close> keeps its value.
\<close>

theorem auto_poll_never_starts_exercise:
  "mediapipe_available s \<and> auto_mode s \<and> \<not> eye_exercise_active s
     \<and> should_check_auto_mode s (f_now f) \<longrightarrow>
     (let s' = snd (process_frame s f)
      in auto_mode_last_check s' = f_now f
         \<and> \<not> eye_exercise_active s'
         \<and> start_count (calls s') = start_count (calls s)
         \<and> eye_exercise_start_time s' = eye_exercise_start_time s
         \<and> last_break_time s' = last_break_time s)"
proof
  assume a: "mediapipe_available s \<and> auto_mode s \<and> \<not> eye_exercise_active s
     \<and> should_check_auto_mode s (f_now f)"
  then obtain rs where rs: "process_frame s f = system_health_step rs f"
    and q: "quiet_at (f_now f) s (snd (system_health_step rs f))"
    using quiet_process_frame [of s f] by blast
  have c: "auto_mode_last_check (auto_check_step s (f_now f)) = f_now f"
    using a by (simp add: auto_check_step_def)
  show "let s' = snd (process_frame s f)
      in auto_mode_last_check s' = f_now f
         \<and> \<not> eye_exercise_active s'
         \<and> start_count (calls s') = start_count (calls s)
         \<and> eye_exercise_start_time s' = eye_exercise_start_time s
         \<and> last_break_time s' = last_break_time s"
    using a q c by (auto simp: Let_def rs quiet_at_def no_start_between_def)
qed

theorem auto_poll_never_starts_exercise_witness:
  "mediapipe_available (init_monitor True True True 0)
   \<and> auto_mode (init_monitor True True True 0)
   \<and> \<not> eye_exercise_active (init_monitor True True True 0)
   \<and> should_check_auto_mode (init_monitor True True True 0) (f_now frame_too_close)
   \<and> f_face frame_too_close = Face GazeCenter True (Some 0.3)
   \<and> f_now frame_too_close = 35
   \<and> (let s' = snd (process_frame (init_monitor True True True 0) frame_too_close)
      in auto_mode_last_check s' = 35
         \<and> \<not> eye_exercise_active s'
         \<and> start_count (calls s') = 0
         \<and> last_break_time s' = 0)"
proof -
  have a: "mediapipe_available (init_monitor True True True 0)
     \<and> auto_mode (init_monitor True True True 0)
     \<and> \<not> eye_exercise_active (init_monitor True True True 0)
     \<and> should_check_auto_mode (init_monitor True True True 0) (f_now frame_too_close)"
    by (simp add: init_monitor_fields frame_too_close_def should_check_auto_mode_def
          AUTO_MODE_INTERVAL_def)
  have b: "f_face frame_too_close = Face GazeCenter True (Some 0.3)"
    "f_now frame_too_close = 35"
    by (simp_all add: frame_too_close_def)
  show ?thesis
    using a b mp [OF auto_poll_never_starts_exercise
                       [of "init_monitor True True True 0" frame_too_close] a]
    by (simp add: Let_def init_monitor_fields start_count_def)
qed

text \<open>
  Claim C2; the code departs from it. With the sensor library present and no temperature
  sensor, \<^verbatim>\<open>check_system_health\<close> stores the string "unavailable" under the key
  "temperature". The key contains "temp", so on a tick that runs the health check the loop
  compares that string with 70: \<^verbatim>\<open>process_frame\<close> leaves with \<^verbatim>\<open>TypeError\<close>, and the
  capture loop ends there.
\<close>

theorem no_temperature_sensor_raises:
  "mediapipe_available s \<and> psutil_available s \<and> \<not> eye_exercise_active s
     \<and> py_int (f_now f) mod 10 = 0
     \<and> sensors_battery (f_psutil f) = Returned bat
     \<and> sensors_temperatures (f_psutil f) = Returned [] \<longrightarrow>
     fst (process_frame s f) = Inl TypeError
     \<and> fst (run_frames s (f # fs)) = Some TypeError"
proof
  assume a: "mediapipe_available s \<and> psutil_available s \<and> \<not> eye_exercise_active s
     \<and> py_int (f_now f) mod 10 = 0
     \<and> sensors_battery (f_psutil f) = Returned bat
     \<and> sensors_temperatures (f_psutil f) = Returned []"
  then obtain rs where rs: "process_frame s f = system_health_step rs f"
    and q: "quiet_at (f_now f) s (snd rs)"
    using quiet_process_frame [of s f] by blast
  have p: "psutil_available (snd rs)" "\<not> eye_exercise_active (snd rs)"
    using a q by (simp_all add: quiet_at_def no_start_between_def)
  have "system_health_step rs f = (Inl TypeError, snd rs)"
    by (rule health_step_raises [OF p, of f bat]) (use a in simp_all)
  then show "fst (process_frame s f) = Inl TypeError
     \<and> fst (run_frames s (f # fs)) = Some TypeError"
    by (simp add: rs)
qed

theorem no_temperature_sensor_raises_witness:
  "mediapipe_available (init_monitor True True False 0)
   \<and> psutil_available (init_monitor True True False 0)
   \<and> \<not> eye_exercise_active (init_monitor True True False 0)
   \<and> py_int (f_now frame_no_sensors) mod 10 = 0
   \<and> sensors_battery (f_psutil frame_no_sensors) = Returned None
   \<and> sensors_temperatures (f_psutil frame_no_sensors) = Returned []
   \<and> check_system_health (init_monitor True True False 0) (f_psutil frame_no_sensors)
       = [(''available'', VBool True), (''temperature'', VStr ''unavailable'')]
   \<and> fst (process_frame (init_monitor True True False 0) frame_no_sensors) = Inl TypeError
   \<and> fst (run_frames (init_monitor True True False 0) (frame_no_sensors # [frame_too_close]))
       = Some TypeError"
proof -
  have a: "mediapipe_available (init_monitor True True False 0)
     \<and> psutil_available (init_monitor True True False 0)
     \<and> \<not> eye_exercise_active (init_monitor True True False 0)
     \<and> py_int (f_now frame_no_sensors) mod 10 = 0
     \<and> sensors_battery (f_psutil frame_no_sensors) = Returned None
     \<and> sensors_temperatures (f_psutil frame_no_sensors) = Returned []"
    by (simp add: init_monitor_fields frame_no_sensors_def psutil_no_sensors_def py_int_def)
  have b: "check_system_health (init_monitor True True False 0) (f_psutil frame_no_sensors)
       = [(''available'', VBool True), (''temperature'', VStr ''unavailable'')]"
    using a health_no_sensors [of "init_monitor True True False 0" "f_psutil frame_no_sensors" None]
    by simp
  show ?thesis
    using a b mp [OF no_temperature_sensor_raises
                       [of "init_monitor True True False 0" frame_no_sensors None
                           "[frame_too_close]"] a]
    by simp
qed

text \<open>
  Claim C4; the code departs from it. \<^verbatim>\<open>try_background_after_start\<close>, the one-shot
  attempt three seconds after a start in auto mode, does not look at the exercise: with
  the camera running and the session older than three seconds it switches to the
  background (camera stopped, window hidden) and leaves the monitor, an active exercise
  included, as it is. The periodic check \<^verbatim>\<open>check_background_operation\<close> does nothing
  while an exercise is active.
\<close>

theorem early_background_ignores_exercise:
  "auto_mode_active g \<and> is_camera_active g \<and> \<not> background_mode g
     \<and> 3 < now - session_start (g_monitor g) \<longrightarrow>
     (let g' = try_background_after_start g now
      in background_mode g' \<and> \<not> is_camera_active g' \<and> \<not> window_shown g'
         \<and> g_monitor g' = g_monitor g
         \<and> (eye_exercise_active (g_monitor g) \<longrightarrow>
              eye_exercise_active (g_monitor g')
              \<and> check_background_operation g now = g))"
  by (simp add: try_background_after_start_def check_user_distance_def
        has_active_alerts_def switch_to_background_mode_def stop_camera_def Let_def
        periodic_check_respects_exercise)

theorem early_background_ignores_exercise_witness:
  "auto_mode_active gui_exercise_at_startup
   \<and> is_camera_active gui_exercise_at_startup
   \<and> \<not> background_mode gui_exercise_at_startup
   \<and> (3 :: real) < 3.3 - session_start (g_monitor gui_exercise_at_startup)
   \<and> eye_exercise_active (g_monitor gui_exercise_at_startup)
   \<and> \<not> exercise_done (g_monitor gui_exercise_at_startup)
   \<and> background_mode (try_background_after_start gui_exercise_at_startup 3.3)
   \<and> \<not> is_camera_active (try_background_after_start gui_exercise_at_startup 3.3)
   \<and> \<not> window_shown (try_background_after_start gui_exercise_at_startup 3.3)
   \<and> eye_exercise_active (g_monitor (try_background_after_start gui_exercise_at_startup 3.3))
   \<and> check_background_operation gui_exercise_at_startup 3.3 = gui_exercise_at_startup"
proof -
  have f: "auto_mode_active gui_exercise_at_startup"
    "is_camera_active gui_exercise_at_startup"
    "\<not> background_mode gui_exercise_at_startup"
    "session_start (g_monitor gui_exercise_at_startup) = 0"
    "eye_exercise_active (g_monitor gui_exercise_at_startup)"
    "\<not> exercise_done (g_monitor gui_exercise_at_startup)"
    by (simp_all add: gui_exercise_at_startup_def gui_start_eye_exercise_def
          main_auto_mode_def init_gui_def init_monitor_def set_auto_mode_def
          start_camera_auto_mode_def start_camera_def start_eye_exercise_def
          send_notification_eye Let_def)
  have a: "auto_mode_active gui_exercise_at_startup \<and> is_camera_active gui_exercise_at_startup
     \<and> \<not> background_mode gui_exercise_at_startup
     \<and> 3 < 3.3 - session_start (g_monitor gui_exercise_at_startup)"
    using f by simp
  show ?thesis
    using f a mp [OF early_background_ignores_exercise [of gui_exercise_at_startup "3.3"] a]
    by (simp add: Let_def)
qed

end
